theory Spec2Isabelle
  imports Complex_Main
begin

section \<open>JavaScript strings and values\<close>

text \<open>
  A JavaScript string is the sequence of its UTF-16 code units, and \<open>length\<close> counts
  code units. A \<open>char\<close> stands for one code unit below 256 (Basic Latin and Latin-1
  Supplement): every keyword, indicator and template string of the analyzer, the
  selector, the builder and the evaluator lies in that range. On this range
  \<open>String.prototype.toLowerCase\<close> maps each code unit on its own: A-Z and the
  capital letters 0xC0-0xDE (without the multiplication sign 0xD7) move up by 32.
\<close>

definition toLowerCaseChar :: "char \<Rightarrow> char" where
  "toLowerCaseChar c =
     (let n = (of_char c :: nat)
      in if (65 \<le> n \<and> n \<le> 90) \<or> (192 \<le> n \<and> n \<le> 222 \<and> n \<noteq> 215)
         then char_of (n + 32) else c)"

definition toLowerCase :: "string \<Rightarrow> string" where
  "toLowerCase s = map toLowerCaseChar s"

fun startsWith :: "string \<Rightarrow> string \<Rightarrow> bool" where
  "startsWith s [] = True"
| "startsWith [] (p # ps) = False"
| "startsWith (c # cs) (p # ps) = (c = p \<and> startsWith cs ps)"

text \<open>\<open>s.includes(p)\<close>: \<open>p\<close> occurs in \<open>s\<close> as a contiguous run of code units.\<close>

fun js_includes :: "string \<Rightarrow> string \<Rightarrow> bool" where
  "js_includes [] p = (p = [])"
| "js_includes (c # cs) p = (startsWith (c # cs) p \<or> js_includes cs p)"

text \<open>The class \<open>\s\<close> of a regular expression, on the code units below 256.\<close>

definition isWhiteSpace :: "char \<Rightarrow> bool" where
  "isWhiteSpace c \<longleftrightarrow>
     c \<in> set [CHR 0x09, CHR 0x0A, CHR 0x0B, CHR 0x0C, CHR 0x0D, CHR 0x20, CHR 0xA0]"

text \<open>
  \<open>s.split(/\s+/)\<close>: the pieces between the maximal runs of white space. A run at
  the start or at the end of the string leaves an empty piece there, and the empty
  string splits into one empty piece. The flag tells whether the previous code unit
  was white space; the head of the result is the piece being read.
\<close>

fun split_ws_from :: "bool \<Rightarrow> string \<Rightarrow> string list" where
  "split_ws_from inRun [] = [[]]"
| "split_ws_from inRun (c # cs) =
     (if isWhiteSpace c
      then (if inRun then split_ws_from True cs else [] # split_ws_from True cs)
      else (case split_ws_from False cs of
              [] \<Rightarrow> [[c]]
            | p # ps \<Rightarrow> (c # p) # ps))"

definition split_ws :: "string \<Rightarrow> string list" where
  "split_ws s = split_ws_from False s"

fun js_join :: "string \<Rightarrow> string list \<Rightarrow> string" where
  "js_join sep [] = []"
| "js_join sep [x] = x"
| "js_join sep (x # y # ys) = x @ sep @ js_join sep (y # ys)"

text \<open>\<open>[...new Set(xs)]\<close>: the distinct elements in the order of their first occurrence.\<close>

fun new_Set_from :: "'a list \<Rightarrow> 'a list \<Rightarrow> 'a list" where
  "new_Set_from seen [] = seen"
| "new_Set_from seen (x # xs) =
     new_Set_from (if x \<in> set seen then seen else seen @ [x]) xs"

definition new_Set :: "'a list \<Rightarrow> 'a list" where
  "new_Set xs = new_Set_from [] xs"

text \<open>\<open>xs[0] || d\<close>: the first element, or \<open>d\<close> when it is missing or the empty string.\<close>

definition first_or :: "string list \<Rightarrow> string \<Rightarrow> string" where
  "first_or xs d = (case xs of [] \<Rightarrow> d | x # _ \<Rightarrow> if x = [] then d else x)"

text \<open>
  The word characters \<open>\w\<close> and the comparison of a regular expression with the
  flag \<open>i\<close> (and without the flag \<open>u\<close>): both sides are canonicalised with
  \<open>toUpperCase\<close>, and a code unit from 128 on is never folded onto an ASCII letter,
  so an ASCII letter of the pattern matches its two ASCII cases only.
\<close>

definition isWordChar :: "char \<Rightarrow> bool" where
  "isWordChar c =
     (let n = (of_char c :: nat)
      in (48 \<le> n \<and> n \<le> 57) \<or> (65 \<le> n \<and> n \<le> 90) \<or> n = 95 \<or> (97 \<le> n \<and> n \<le> 122))"

definition isDigit :: "char \<Rightarrow> bool" where
  "isDigit c = (let n = (of_char c :: nat) in 48 \<le> n \<and> n \<le> 57)"

definition canonicalize :: "char \<Rightarrow> char" where
  "canonicalize c =
     (let n = (of_char c :: nat) in if 97 \<le> n \<and> n \<le> 122 then char_of (n - 32) else c)"

fun startsWith_ci :: "string \<Rightarrow> string \<Rightarrow> bool" where
  "startsWith_ci s [] = True"
| "startsWith_ci [] (p # ps) = False"
| "startsWith_ci (c # cs) (p # ps) =
     (canonicalize c = canonicalize p \<and> startsWith_ci cs ps)"

text \<open>
  A value of JavaScript as far as the tool arguments need it; an object is the list
  of its properties (an array is an object too). \<open>truthy\<close> is the conversion
  \<open>ToBoolean\<close>, \<open>typeof_string\<close> the test \<open>typeof v === 'string'\<close>.
\<close>

datatype jsvalue =
    JUndefined
  | JNull
  | JBoolean bool
  | JNaN
  | JNumber real
  | JString string
  | JObject "(string \<times> jsvalue) list"

fun truthy :: "jsvalue \<Rightarrow> bool" where
  "truthy JUndefined = False"
| "truthy JNull = False"
| "truthy (JBoolean b) = b"
| "truthy JNaN = False"
| "truthy (JNumber r) = (r \<noteq> 0)"
| "truthy (JString s) = (s \<noteq> [])"
| "truthy (JObject fs) = True"

fun typeof_string :: "jsvalue \<Rightarrow> bool" where
  "typeof_string (JString s) = True"
| "typeof_string v = False"

text \<open>
  A stable sort by descending score: \<open>xs.sort((a, b) => score(b) - score(a))\<close>.
  Elements of equal score keep their order.
\<close>

definition sort_desc :: "('a \<Rightarrow> nat) \<Rightarrow> 'a list \<Rightarrow> 'a list" where
  "sort_desc score xs = sort_key (\<lambda>x. - int (score x)) xs"

section \<open>Types (types.ts)\<close>

datatype TaskType =
  Criativa | Tecnica | Analitica | Educacional | Debate | Documentacao | Codigo | Mista

datatype ComplexityLevel = Basico | Intermediario | Avancado | Expert

datatype PromptingTechnique =
    Role_prompting
  | Emotion_prompting
  | Iq_attribution
  | Fake_past_consistency
  | Fake_audience
  | Obviously
  | False_restriction
  | Version_2
  | Someone_disagrees
  | Bet_100_dollars
  | Simtom
  | Re2
  | Rar

text \<open>The string behind each enum value, as a template literal prints it.\<close>

fun taskType_string :: "TaskType \<Rightarrow> string" where
  "taskType_string Criativa = ''criativa''"
| "taskType_string Tecnica = ''tecnica''"
| "taskType_string Analitica = ''analitica''"
| "taskType_string Educacional = ''educacional''"
| "taskType_string Debate = ''debate''"
| "taskType_string Documentacao = ''documentacao''"
| "taskType_string Codigo = ''codigo''"
| "taskType_string Mista = ''mista''"

fun complexity_string :: "ComplexityLevel \<Rightarrow> string" where
  "complexity_string Basico = ''basico''"
| "complexity_string Intermediario = ''intermediario''"
| "complexity_string Avancado = ''avancado''"
| "complexity_string Expert = ''expert''"

text \<open>
  \<open>suggestedIQ\<close> is a number; the analyzer only ever stores 130, 140, 150 or 160.
  It is kept as an integer and printed in decimal. The field \<open>keywords\<close> of the
  analysis result is named \<open>keywordList\<close> here.
\<close>

fun digits_of :: "nat \<Rightarrow> string" where
  "digits_of n =
     (if n < 10 then [char_of (48 + n)]
      else digits_of (n div 10) @ [char_of (48 + n mod 10)])"

declare digits_of.simps [simp del]

definition number_string :: "int \<Rightarrow> string" where
  "number_string i = (if i < 0 then ''-'' @ digits_of (nat (- i)) else digits_of (nat i))"

record AnalysisResult =
  taskType :: TaskType
  mainObjective :: string
  complexityLevel :: ComplexityLevel
  implicitContext :: "string list"
  targetAudience :: string
  suggestedIQ :: int
  keywordList :: "string list"
  detectedDomain :: "string option"
  intentAnalysis :: "string option"

record TechniqueApplication =
  technique :: PromptingTechnique
  reason :: string
  implementation :: string

section \<open>Request analyzer (RequestAnalyzer)\<close>

definition patterns :: "(TaskType \<times> string list) list" where
  "patterns =
     [(Codigo, [''c'' @ [CHR 0xF3] @ ''digo'', ''programa'', ''fun'' @ [CHR 0xE7, CHR 0xE3] @ ''o'',
                ''class'', ''implementar'', ''debug'', ''refactor'', ''bug'', ''script'', ''api'']),
      (Tecnica, [''como fazer'', ''t'' @ [CHR 0xE9] @ ''cnica'', ''m'' @ [CHR 0xE9] @ ''todo'',
                 ''processo'', ''algoritmo'', ''otimizar'', ''configurar'', ''setup'']),
      (Criativa, [''criar'', ''design'', ''arte'', ''criativo'', ''inovador'', ''imaginar'',
                  ''inventar'', ''ascii art'', ''logo'']),
      (Analitica, [''analisar'', ''comparar'', ''avaliar'', ''qual melhor'',
                   ''diferen'' @ [CHR 0xE7] @ ''a'', ''pr'' @ [CHR 0xF3] @ ''s e contras'', ''vs'']),
      (Educacional, [''explicar'', ''ensinar'', ''como funciona'', ''o que '' @ [CHR 0xE9],
                     ''tutorial'', ''aprender'', ''entender'']),
      (Debate, [''discutir'', ''argumentar'', ''opini'' @ [CHR 0xE3] @ ''o'', ''debate'',
                ''controverso'', ''melhor'', ''pior'']),
      (Documentacao, [''documentar'', ''documenta'' @ [CHR 0xE7, CHR 0xE3] @ ''o'', ''readme'',
                      ''comentar'', ''especificar'', ''descrever'']),
      (Mista, [])]"

text \<open>\<open>keywords.filter(keyword => lowerRequest.includes(keyword)).length\<close>\<close>

definition count_included :: "string \<Rightarrow> string list \<Rightarrow> nat" where
  "count_included lowerRequest ws = length (filter (\<lambda>w. js_includes lowerRequest w) ws)"

text \<open>The object \<open>scores\<close>: one entry per type whose count is positive, in the order of \<open>patterns\<close>.\<close>

definition taskType_scores :: "string \<Rightarrow> (TaskType \<times> nat) list" where
  "taskType_scores request =
     (let lowerRequest = toLowerCase request
      in filter (\<lambda>(t, score). score > 0)
           (map (\<lambda>(t, ws). (t, count_included lowerRequest ws)) patterns))"

definition identifyTaskType :: "string \<Rightarrow> TaskType" where
  "identifyTaskType request =
     (let scores = taskType_scores request;
          matchedTypes = map fst scores
      in if length matchedTypes > 2 then Mista
         else (case sort_desc snd scores of
                 [] \<Rightarrow> Tecnica
               | topType # _ \<Rightarrow> fst topType))"

definition expertIndicators :: "string list" where
  "expertIndicators =
     [''avan'' @ [CHR 0xE7] @ ''ado'', ''expert'', ''complexo'', ''otimizado'', ''performance'',
      ''arquitetura'', ''escal'' @ [CHR 0xE1] @ ''vel'', ''3d'', ''algoritmo'']"

definition intermediateIndicators :: "string list" where
  "intermediateIndicators =
     [''melhorar'', ''refatorar'', ''estruturar'', ''organizar'', ''integrar'', ''api'']"

definition basicIndicators :: "string list" where
  "basicIndicators =
     [''simples'', ''b'' @ [CHR 0xE1] @ ''sico'', ''iniciante'', ''exemplo'', ''hello world'',
      ''tutorial'']"

definition expertScore :: "string \<Rightarrow> nat" where
  "expertScore request = count_included (toLowerCase request) expertIndicators"

definition intermediateScore :: "string \<Rightarrow> nat" where
  "intermediateScore request = count_included (toLowerCase request) intermediateIndicators"

definition basicScore :: "string \<Rightarrow> nat" where
  "basicScore request = count_included (toLowerCase request) basicIndicators"

definition wordCount :: "string \<Rightarrow> nat" where
  "wordCount request = length (split_ws request)"

text \<open>
  \<open>/\b(class|function|async|await|api|database|server)\b/i.test(request)\<close>: one of
  the terms stands at some position, in either case, with no word character right
  before it and none right after it. The flag of \<open>code_term_from\<close> tells whether the
  code unit before the position is a word character.
\<close>

definition codeTerms :: "string list" where
  "codeTerms = [''class'', ''function'', ''async'', ''await'', ''api'', ''database'', ''server'']"

definition boundary_before :: "string \<Rightarrow> bool" where
  "boundary_before rest = (case rest of [] \<Rightarrow> True | d # _ \<Rightarrow> \<not> isWordChar d)"

definition code_term_here :: "string \<Rightarrow> bool" where
  "code_term_here s =
     list_ex (\<lambda>w. startsWith_ci s w \<and> boundary_before (drop (length w) s)) codeTerms"

fun code_term_from :: "bool \<Rightarrow> string \<Rightarrow> bool" where
  "code_term_from prevWord [] = False"
| "code_term_from prevWord (c # cs) =
     ((\<not> prevWord \<and> code_term_here (c # cs)) \<or> code_term_from (isWordChar c) cs)"

definition hasCodeTerms :: "string \<Rightarrow> bool" where
  "hasCodeTerms request = code_term_from False request"

definition assessComplexity :: "string \<Rightarrow> ComplexityLevel" where
  "assessComplexity request =
     (if expertScore request > 0 \<or> (wordCount request > 30 \<and> hasCodeTerms request) then Expert
      else if intermediateScore request > 0 \<or> wordCount request > 20 then Avancado
      else if basicScore request > 0 then Basico
      else Intermediario)"

definition stopWords :: "string list" where
  "stopWords =
     [''para'', ''isso'', ''esse'', ''este'', ''como'', ''fazer'', ''criar'', ''voc'' @ [CHR 0xEA],
      ''pode'', ''deve'', ''quero'', ''preciso'']"

definition extractKeywords :: "string \<Rightarrow> string list" where
  "extractKeywords request =
     (let ws = filter (\<lambda>w. w \<notin> set stopWords)
                 (filter (\<lambda>w. length w > 4) (split_ws (toLowerCase request)))
      in take 5 (new_Set ws))"

record FirstReading =
  fr_taskType :: TaskType
  fr_complexityLevel :: ComplexityLevel
  fr_keywords :: "string list"
  hasContext :: bool

definition firstReading :: "string \<Rightarrow> jsvalue \<Rightarrow> FirstReading" where
  "firstReading userRequest context =
     \<lparr> fr_taskType = identifyTaskType userRequest,
       fr_complexityLevel = assessComplexity userRequest,
       fr_keywords = extractKeywords userRequest,
       hasContext = truthy context \<rparr>"

text \<open>\<open>objectiveTemplates[taskType] || 'Resolver ...'\<close>: the fallback stands for an empty template.\<close>

definition objectiveTemplates :: "string list \<Rightarrow> TaskType \<Rightarrow> string" where
  "objectiveTemplates kws t =
     (case t of
        Codigo \<Rightarrow> ''Implementar c'' @ [CHR 0xF3] @ ''digo para '' @ js_join '' e '' (take 2 kws)
      | Tecnica \<Rightarrow> ''Explicar t'' @ [CHR 0xE9] @ ''cnica/m'' @ [CHR 0xE9] @ ''todo de ''
                     @ first_or kws ''processo''
      | Criativa \<Rightarrow> ''Criar solu'' @ [CHR 0xE7, CHR 0xE3] @ ''o criativa para ''
                     @ first_or kws ''projeto''
      | Analitica \<Rightarrow> ''Analisar e comparar '' @ js_join '' vs '' (take 2 kws)
      | Educacional \<Rightarrow> ''Ensinar conceito de '' @ first_or kws (''t'' @ [CHR 0xF3] @ ''pico'')
      | Debate \<Rightarrow> ''Debater argumentos sobre '' @ first_or kws ''tema''
      | Documentacao \<Rightarrow> ''Documentar '' @ first_or kws ''projeto''
      | Mista \<Rightarrow> ''Realizar tarefa complexa envolvendo '' @ js_join '' e '' (take 2 kws))"

definition identifyMainObjective :: "string \<Rightarrow> FirstReading \<Rightarrow> string" where
  "identifyMainObjective request fr =
     (let objective = objectiveTemplates (fr_keywords fr) (fr_taskType fr)
      in if objective = []
         then ''Resolver solicita'' @ [CHR 0xE7, CHR 0xE3] @ ''o do usu'' @ [CHR 0xE1] @ ''rio''
         else objective)"

definition extractImplicitContext :: "string \<Rightarrow> FirstReading \<Rightarrow> string list" where
  "extractImplicitContext request fr =
     (let lowerRequest = toLowerCase request
      in (if js_includes lowerRequest ''node'' \<or> js_includes lowerRequest ''javascript''
             \<or> js_includes lowerRequest ''npm''
          then [''Ambiente Node.js/JavaScript''] else [])
       @ (if js_includes lowerRequest ''python'' then [''Ambiente Python''] else [])
       @ (if js_includes lowerRequest ''react'' \<or> js_includes lowerRequest ''vue''
             \<or> js_includes lowerRequest ''angular''
          then [''Frontend framework''] else [])
       @ (if js_includes lowerRequest (''produ'' @ [CHR 0xE7, CHR 0xE3] @ ''o'')
             \<or> js_includes lowerRequest ''production''
          then [''C'' @ [CHR 0xF3] @ ''digo para produ'' @ [CHR 0xE7, CHR 0xE3]
                  @ ''o - alta qualidade necess'' @ [CHR 0xE1] @ ''ria'']
          else [])
       @ (if js_includes lowerRequest ''aprender'' \<or> js_includes lowerRequest ''estudar''
          then [''Finalidade educacional''] else [])
       @ (if fr_complexityLevel fr = Expert
          then [''Necessita abordagem profissional e otimizada''] else []))"

definition identifyAudience :: "string \<Rightarrow> FirstReading \<Rightarrow> string" where
  "identifyAudience request fr =
     (let lowerRequest = toLowerCase request
      in if js_includes lowerRequest ''cliente'' \<or> js_includes lowerRequest ''apresentar''
         then ''Cliente/Stakeholder''
         else if js_includes lowerRequest ''time'' \<or> js_includes lowerRequest ''equipe''
         then ''Equipe de desenvolvimento''
         else if js_includes lowerRequest ''aprender'' \<or> js_includes lowerRequest ''estudar''
         then ''Estudante/Aprendiz''
         else if fr_complexityLevel fr = Expert
         then ''Desenvolvedor experiente''
         else ''Desenvolvedor geral'')"

fun suggestIQLevel :: "ComplexityLevel \<Rightarrow> int" where
  "suggestIQLevel Basico = 130"
| "suggestIQLevel Intermediario = 140"
| "suggestIQLevel Avancado = 150"
| "suggestIQLevel Expert = 160"

definition secondReading :: "string \<Rightarrow> FirstReading \<Rightarrow> AnalysisResult" where
  "secondReading userRequest fr =
     \<lparr> taskType = fr_taskType fr,
       mainObjective = identifyMainObjective userRequest fr,
       complexityLevel = fr_complexityLevel fr,
       implicitContext = extractImplicitContext userRequest fr,
       targetAudience = identifyAudience userRequest fr,
       suggestedIQ = suggestIQLevel (fr_complexityLevel fr),
       keywordList = fr_keywords fr,
       detectedDomain = None,
       intentAnalysis = None \<rparr>"

definition analyze :: "string \<Rightarrow> jsvalue \<Rightarrow> AnalysisResult" where
  "analyze userRequest context = secondReading userRequest (firstReading userRequest context)"

section \<open>Technique registry (techniques.ts)\<close>

text \<open>
  Of each entry of \<open>TECHNIQUES\<close> the program reads \<open>displayName\<close> and
  \<open>isMandatory\<close>; \<open>description\<close>, \<open>whenToUse\<close> and \<open>example\<close> are catalogue
  text that no function looks at.
\<close>

fun displayName :: "PromptingTechnique \<Rightarrow> string" where
  "displayName Role_prompting = ''Role Prompting''"
| "displayName Emotion_prompting = ''Emotion Prompting''"
| "displayName Iq_attribution = ''Atribuir QI/Expertise''"
| "displayName Fake_past_consistency = ''Fingir Consist'' @ [CHR 0xEA] @ ''ncia Passada''"
| "displayName Fake_audience = ''Finja uma Plateia''"
| "displayName Obviously = ''Obviamente...''"
| "displayName False_restriction = ''Restri'' @ [CHR 0xE7, CHR 0xE3] @ ''o Falsa''"
| "displayName Version_2 = ''Vers'' @ [CHR 0xE3] @ ''o 2.0''"
| "displayName Someone_disagrees = ''Algu'' @ [CHR 0xE9] @ ''m Discorda''"
| "displayName Bet_100_dollars = ''Apostar 100 D'' @ [CHR 0xF3] @ ''lares''"
| "displayName Simtom = ''SimToM (Theory of Mind)''"
| "displayName Re2 = ''RE2 (Leia Duas Vezes)''"
| "displayName Rar = ''RaR (Rephrase and Respond)''"

fun isMandatory :: "PromptingTechnique \<Rightarrow> bool" where
  "isMandatory Role_prompting = True"
| "isMandatory Emotion_prompting = True"
| "isMandatory Iq_attribution = True"
| "isMandatory t = False"

section \<open>Technique selector (TechniqueSelector)\<close>

definition roleMap :: "TaskType \<Rightarrow> string" where
  "roleMap t =
     (case t of
        Codigo \<Rightarrow> ''desenvolvedor senior especializado''
      | Tecnica \<Rightarrow> ''especialista t'' @ [CHR 0xE9] @ ''cnico''
      | Criativa \<Rightarrow> ''designer criativo e inovador''
      | Analitica \<Rightarrow> ''analista especializado''
      | Educacional \<Rightarrow> ''educador experiente''
      | Debate \<Rightarrow> ''debatedor e pensador cr'' @ [CHR 0xED] @ ''tico''
      | Documentacao \<Rightarrow> ''technical writer especializado''
      | Mista \<Rightarrow> ''profissional multidisciplinar'')"

definition generateRole :: "AnalysisResult \<Rightarrow> string" where
  "generateRole a =
     (let role = (if roleMap (taskType a) = [] then ''especialista'' else roleMap (taskType a));
          dom = first_or (keywordList a) (''sua '' @ [CHR 0xE1] @ ''rea'')
      in ''Voc'' @ [CHR 0xEA] @ '' '' @ [CHR 0xE9] @ '' um '' @ role @ '' em '' @ dom)"

definition mentions_production :: "AnalysisResult \<Rightarrow> bool" where
  "mentions_production a =
     list_ex (\<lambda>c. js_includes c (''produ'' @ [CHR 0xE7, CHR 0xE3] @ ''o'')) (implicitContext a)"

definition shouldUseEmotionPrompting :: "AnalysisResult \<Rightarrow> bool" where
  "shouldUseEmotionPrompting a \<longleftrightarrow>
     complexityLevel a \<noteq> Basico \<and>
     (taskType a = Codigo \<or> taskType a = Tecnica \<or> mentions_production a)"

definition generateEmotionPrompt :: "AnalysisResult \<Rightarrow> string" where
  "generateEmotionPrompt a =
     (if mentions_production a
      then ''Isso '' @ [CHR 0xE9] @ '' cr'' @ [CHR 0xED] @ ''tico para produ'' @ [CHR 0xE7, CHR 0xE3]
             @ ''o e requer m'' @ [CHR 0xE1] @ ''xima qualidade e aten'' @ [CHR 0xE7, CHR 0xE3]
             @ ''o aos detalhes''
      else if complexityLevel a = Expert
      then ''Esse '' @ [CHR 0xE9] @ '' um desafio t'' @ [CHR 0xE9]
             @ ''cnico importante que demanda precis'' @ [CHR 0xE3] @ ''o e expertise''
      else ''Isso '' @ [CHR 0xE9] @ '' importante e precisa ser feito com cuidado e precis''
             @ [CHR 0xE3] @ ''o'')"

definition generatePastConsistency :: "AnalysisResult \<Rightarrow> string" where
  "generatePastConsistency a =
     (let topic = first_or (keywordList a) (''esse t'' @ [CHR 0xF3] @ ''pico'')
      in ''Voc'' @ [CHR 0xEA] @ '' me explicou anteriormente sobre '' @ topic
           @ '', mas agora preciso aplicar especificamente'')"

text \<open>
  \<open>generateFalseRestriction\<close> draws \<open>Math.floor(Math.random() * 3)\<close>. The draw is
  the argument \<open>rnd\<close>, an index into the three restrictions.
\<close>

definition restrictions :: "string list" where
  "restrictions =
     [''Use conceitos de design moderno e minimalista'',
      ''Aplique princ'' @ [CHR 0xED] @ ''pios de UX/UI de alta qualidade'',
      ''Pense em termos de experi'' @ [CHR 0xEA] @ ''ncia do usu'' @ [CHR 0xE1]
        @ ''rio excepcional'']"

definition generateFalseRestriction :: "nat \<Rightarrow> AnalysisResult \<Rightarrow> string" where
  "generateFalseRestriction rnd a = restrictions ! (rnd mod length restrictions)"

definition generateDisagreement :: "AnalysisResult \<Rightarrow> string" where
  "generateDisagreement a =
     (let topic = js_join '' e '' (take 2 (keywordList a))
      in ''Alguns especialistas argumentam contra essa abordagem de '' @ topic)"

definition techniqueTaskMatch :: "PromptingTechnique \<Rightarrow> TaskType list" where
  "techniqueTaskMatch t =
     (case t of
        Fake_audience \<Rightarrow> [Educacional]
      | False_restriction \<Rightarrow> [Criativa]
      | Someone_disagrees \<Rightarrow> [Analitica, Debate]
      | Bet_100_dollars \<Rightarrow> [Codigo]
      | Simtom \<Rightarrow> [Mista]
      | _ \<Rightarrow> [])"

definition calculateRelevanceScore :: "TechniqueApplication \<Rightarrow> AnalysisResult \<Rightarrow> nat" where
  "calculateRelevanceScore application a =
     (if complexityLevel a = Expert
         \<and> technique application \<in> set [Fake_past_consistency, Bet_100_dollars, Simtom]
      then 3 else 0)
     + (if taskType a \<in> set (techniqueTaskMatch (technique application)) then 5 else 0)"

definition rankCandidates ::
  "TechniqueApplication list \<Rightarrow> AnalysisResult \<Rightarrow> TechniqueApplication list" where
  "rankCandidates candidates a = sort_desc (\<lambda>c. calculateRelevanceScore c a) candidates"

definition selectSituationalTechniques ::
  "nat \<Rightarrow> AnalysisResult \<Rightarrow> TechniqueApplication list" where
  "selectSituationalTechniques rnd a =
     (let candidates =
        (if complexityLevel a = Expert \<or> taskType a = Tecnica
         then [\<lparr> technique = Fake_past_consistency,
                  reason = ''Estabelece continuidade para t'' @ [CHR 0xF3] @ ''pico t''
                             @ [CHR 0xE9] @ ''cnico complexo'',
                  implementation = generatePastConsistency a \<rparr>]
         else [])
        @ (if taskType a = Educacional \<or> js_includes (targetAudience a) ''Estudante''
           then [\<lparr> technique = Fake_audience,
                    reason = ''Adapta explica'' @ [CHR 0xE7, CHR 0xE3] @ ''o para audi''
                               @ [CHR 0xEA] @ ''ncia espec'' @ [CHR 0xED] @ ''fica'',
                    implementation = ''Explique como se apresentasse para ''
                               @ toLowerCase (targetAudience a) \<rparr>]
           else [])
        @ (if taskType a = Criativa
           then [\<lparr> technique = False_restriction,
                    reason = ''For'' @ [CHR 0xE7] @ ''a pensamento criativo atrav'' @ [CHR 0xE9]
                               @ ''s de restri'' @ [CHR 0xE7, CHR 0xF5] @ ''es'',
                    implementation = generateFalseRestriction rnd a \<rparr>]
           else [])
        @ (if taskType a = Analitica \<or> taskType a = Debate
           then [\<lparr> technique = Someone_disagrees,
                    reason = ''Estimula an'' @ [CHR 0xE1] @ ''lise cr'' @ [CHR 0xED]
                               @ ''tica atrav'' @ [CHR 0xE9] @ ''s de perspectiva oposta'',
                    implementation = generateDisagreement a \<rparr>]
           else [])
        @ (if taskType a = Codigo \<and> complexityLevel a \<noteq> Basico
           then [\<lparr> technique = Bet_100_dollars,
                    reason = ''Garante valida'' @ [CHR 0xE7, CHR 0xE3] @ ''o t'' @ [CHR 0xE9]
                               @ ''cnica rigorosa'',
                    implementation = ''Vamos validar com precis'' @ [CHR 0xE3]
                               @ ''o extrema, como se apost'' @ [CHR 0xE1] @ ''ssemos nisso'' \<rparr>]
           else [])
        @ (if taskType a = Mista \<or> list_ex (\<lambda>c. js_includes c ''Cliente'') (implicitContext a)
           then [\<lparr> technique = Simtom,
                    reason = ''Analisa sob m'' @ [CHR 0xFA]
                               @ ''ltiplas perspectivas de stakeholders'',
                    implementation = ''Considere as perspectivas do usu'' @ [CHR 0xE1]
                               @ ''rio final, desenvolvedor e neg'' @ [CHR 0xF3] @ ''cio'' \<rparr>]
           else [])
        @ (if length (keywordList a) < 3
              \<or> js_includes (mainObjective a) (''Resolver solicita'' @ [CHR 0xE7, CHR 0xE3] @ ''o'')
           then [\<lparr> technique = Rar,
                    reason = ''Clarifica entendimento antes de responder'',
                    implementation = ''Primeiro confirme o entendimento reformulando o pedido'' \<rparr>]
           else [])
      in rankCandidates candidates a)"

definition applyMandatoryTechniques :: "AnalysisResult \<Rightarrow> TechniqueApplication list" where
  "applyMandatoryTechniques a =
     [\<lparr> technique = Role_prompting,
         reason = ''Estabelece expertise e contexto profissional adequado'',
         implementation = generateRole a \<rparr>,
      \<lparr> technique = Iq_attribution,
         reason = ''Define n'' @ [CHR 0xED] @ ''vel de sofistica'' @ [CHR 0xE7, CHR 0xE3] @ ''o ''
                    @ complexity_string (complexityLevel a),
         implementation = ''com QI '' @ number_string (suggestedIQ a) \<rparr>]
     @ (if shouldUseEmotionPrompting a
        then [\<lparr> technique = Emotion_prompting,
                 reason = ''Aumenta aten'' @ [CHR 0xE7, CHR 0xE3] @ ''o e cuidado na resposta'',
                 implementation = generateEmotionPrompt a \<rparr>]
        else [])"

definition selectTechniques :: "nat \<Rightarrow> AnalysisResult \<Rightarrow> TechniqueApplication list" where
  "selectTechniques rnd a =
     applyMandatoryTechniques a @ take 2 (selectSituationalTechniques rnd a)"

section \<open>Meta-instruction builder (MetaInstructionBuilder)\<close>

text \<open>
  The entries of \<open>promptEngineeringDirectives\<close>; the field \<open>technique\<close> of an entry
  is named \<open>techniqueName\<close> here, since \<open>technique\<close> is the field of a technique
  application.
\<close>

record Directive =
  step :: nat
  directive :: string
  techniqueName :: string
  reasoning :: string

record CognitiveProtocol =
  taskIdentification :: string
  complexityAssessment :: string
  objectiveClarity :: string

record StructuralElements =
  contextRequirements :: "string list"
  constraintsToObserve :: "string list"
  outputFormatGuidelines :: "string list"

record MetaInstructionFramework =
  framework_type :: string
  cognitiveAnalysisProtocol :: CognitiveProtocol
  promptEngineeringDirectives :: "Directive list"
  requiredStructuralElements :: StructuralElements
  thinkingProtocol :: "string list"
  originalRequest :: string
  generationDirective :: string

record Validation =
  isValid :: bool
  issues :: "string list"

text \<open>\<open>translations[type] || type\<close> (the table is named \<open>taskTypeTranslations\<close> here) and \<open>approaches[type] || 'systematic'\<close>.\<close>

definition taskTypeTranslations :: "TaskType \<Rightarrow> string" where
  "taskTypeTranslations t =
     (case t of
        Codigo \<Rightarrow> ''code/programming''
      | Tecnica \<Rightarrow> ''technical/methodological''
      | Criativa \<Rightarrow> ''creative''
      | Analitica \<Rightarrow> ''analytical''
      | Educacional \<Rightarrow> ''educational''
      | Debate \<Rightarrow> ''debate/argumentation''
      | Documentacao \<Rightarrow> ''documentation''
      | Mista \<Rightarrow> ''mixed/multidisciplinary'')"

definition translateTaskType :: "TaskType \<Rightarrow> string" where
  "translateTaskType t = (if taskTypeTranslations t = [] then taskType_string t else taskTypeTranslations t)"

definition approaches :: "TaskType \<Rightarrow> string" where
  "approaches t =
     (case t of
        Codigo \<Rightarrow> ''implementation-focused''
      | Tecnica \<Rightarrow> ''methodological''
      | Criativa \<Rightarrow> ''innovative and design-thinking''
      | Analitica \<Rightarrow> ''comparative and evidence-based''
      | Educacional \<Rightarrow> ''pedagogical''
      | Debate \<Rightarrow> ''argumentative and critical''
      | Documentacao \<Rightarrow> ''descriptive and comprehensive''
      | Mista \<Rightarrow> ''holistic'')"

definition getApproachType :: "TaskType \<Rightarrow> string" where
  "getApproachType t = (if approaches t = [] then ''systematic'' else approaches t)"

definition buildCognitiveProtocol :: "AnalysisResult \<Rightarrow> CognitiveProtocol" where
  "buildCognitiveProtocol a =
     \<lparr> taskIdentification =
         ''Identify this as a '' @ translateTaskType (taskType a) @ '' task requiring ''
           @ getApproachType (taskType a) @ '' approach'',
       complexityAssessment =
         ''Assess complexity level as '' @ complexity_string (complexityLevel a)
           @ '' requiring '' @ number_string (suggestedIQ a) @ ''+ IQ attribution'',
       objectiveClarity = ''Clarify the main objective: '' @ mainObjective a \<rparr>"

definition roleInstructionMap :: "TaskType \<Rightarrow> string" where
  "roleInstructionMap t =
     (case t of
        Codigo \<Rightarrow> ''Assume the role of a senior software developer specialized in''
      | Tecnica \<Rightarrow> ''Assume the role of a technical specialist in''
      | Criativa \<Rightarrow> ''Assume the role of a creative designer and innovator in''
      | Analitica \<Rightarrow> ''Assume the role of an analytical specialist in''
      | Educacional \<Rightarrow> ''Assume the role of an experienced educator in''
      | Debate \<Rightarrow> ''Assume the role of a critical thinker and debater in''
      | Documentacao \<Rightarrow> ''Assume the role of a specialized technical writer in''
      | Mista \<Rightarrow> ''Assume the role of a multidisciplinary professional in'')"

definition getRoleInstruction :: "AnalysisResult \<Rightarrow> string" where
  "getRoleInstruction a =
     (let dom = first_or (keywordList a) ''the relevant domain''
      in roleInstructionMap (taskType a) @ '' '' @ dom)"

text \<open>
  \<open>instructionMap[tech.technique] || ''\<close>: the map has no entry for role prompting
  and IQ attribution, which come out as the empty string.
\<close>

definition getTechniqueInstruction :: "TechniqueApplication \<Rightarrow> AnalysisResult \<Rightarrow> string" where
  "getTechniqueInstruction tech a =
     (case technique tech of
        Fake_past_consistency \<Rightarrow>
          ''Apply '' @ [CHR 0x22] @ ''Fake Past Consistency'' @ [CHR 0x22]
            @ '' by mentioning previous work or discussion about ''
            @ first_or (keywordList a) ''this topic''
      | Emotion_prompting \<Rightarrow>
          ''Add emotional weight using '' @ [CHR 0x22] @ ''Emotion Prompting'' @ [CHR 0x22]
            @ '' - emphasize importance and critical nature of the task''
      | Fake_audience \<Rightarrow>
          ''Include '' @ [CHR 0x22] @ ''Fake Audience'' @ [CHR 0x22]
            @ '' technique - frame as if presenting to '' @ targetAudience a
      | Obviously \<Rightarrow>
          ''Use '' @ [CHR 0x22] @ ''Obviously'' @ [CHR 0x22]
            @ '' technique to frame certain aspects as self-evident''
      | False_restriction \<Rightarrow>
          ''Apply creative constraints using '' @ [CHR 0x22] @ ''False Restriction''
            @ [CHR 0x22] @ '' - '' @ implementation tech
      | Version_2 \<Rightarrow> ''Reference this as version 2.0 of a solution''
      | Someone_disagrees \<Rightarrow>
          ''Use '' @ [CHR 0x22] @ ''Someone Disagrees'' @ [CHR 0x22]
            @ '' technique - acknowledge opposing viewpoint: '' @ implementation tech
      | Bet_100_dollars \<Rightarrow>
          ''Apply '' @ [CHR 0x22] @ ''Bet $100'' @ [CHR 0x22]
            @ '' technique to emphasize validation and precision''
      | Simtom \<Rightarrow>
          ''Include '' @ [CHR 0x22] @ ''SimToM'' @ [CHR 0x22]
            @ '' (Simulation Theory of Mind) - consider multiple stakeholder perspectives''
      | Rar \<Rightarrow>
          ''Use '' @ [CHR 0x22] @ ''RaR'' @ [CHR 0x22]
            @ '' (Rephrase and Respond) - first rephrase the request to confirm understanding''
      | Re2 \<Rightarrow>
          ''Apply '' @ [CHR 0x22] @ ''RE2'' @ [CHR 0x22]
            @ '' (Read Twice) methodology for deeper analysis''
      | Role_prompting \<Rightarrow> []
      | Iq_attribution \<Rightarrow> [])"

definition getStructureInstruction :: "AnalysisResult \<Rightarrow> string" where
  "getStructureInstruction a =
     (if taskType a = Codigo
      then ''Structure the prompt in sections: Role & Context, Task Description, Technical Requirements, Quality Standards, Expected Output''
      else if taskType a = Educacional
      then ''Structure the prompt in sections: Expert Role, Learning Objective, Explanation Approach, Examples Required, Validation Criteria''
      else ''Structure the prompt in clear sections: Context, Objective, Requirements, Constraints, Expected Output Format'')"

text \<open>
  The loop over the selected techniques: role prompting and IQ attribution are
  skipped, a technique with an empty instruction is skipped, and every directive
  pushed takes the next step number.
\<close>

fun additionalDirectives ::
  "nat \<Rightarrow> AnalysisResult \<Rightarrow> TechniqueApplication list \<Rightarrow> Directive list" where
  "additionalDirectives stepNumber a [] = []"
| "additionalDirectives stepNumber a (tech # rest) =
     (if technique tech = Role_prompting \<or> technique tech = Iq_attribution
      then additionalDirectives stepNumber a rest
      else (let instruction = getTechniqueInstruction tech a
            in if instruction \<noteq> []
               then \<lparr> step = stepNumber,
                      directive = instruction,
                      techniqueName = displayName (technique tech),
                      reasoning = reason tech \<rparr>
                    # additionalDirectives (stepNumber + 1) a rest
               else additionalDirectives stepNumber a rest))"

definition buildEngineeringDirectives ::
  "AnalysisResult \<Rightarrow> TechniqueApplication list \<Rightarrow> Directive list" where
  "buildEngineeringDirectives a techs =
     (let additional = additionalDirectives 3 a techs
      in [\<lparr> step = 1,
             directive = getRoleInstruction a,
             techniqueName = ''Role Prompting'',
             reasoning = ''Establish domain expertise and professional context'' \<rparr>,
          \<lparr> step = 2,
             directive = ''Apply IQ Attribution technique by stating you have IQ ''
                           @ number_string (suggestedIQ a) @ '' in this domain'',
             techniqueName = ''IQ Attribution'',
             reasoning = ''Sets sophistication level appropriate for ''
                           @ complexity_string (complexityLevel a) @ '' complexity'' \<rparr>]
         @ additional
         @ [\<lparr> step = 3 + length additional,
               directive = getStructureInstruction a,
               techniqueName = ''Structural Organization'',
               reasoning = ''Ensures clear organization and readability'' \<rparr>])"

definition getContextRequirements :: "AnalysisResult \<Rightarrow> string list" where
  "getContextRequirements a =
     [''Domain: '' @ js_join '', '' (keywordList a),
      ''Complexity Level: '' @ complexity_string (complexityLevel a),
      ''Target Audience: '' @ targetAudience a]
     @ (if length (implicitContext a) > 0
        then map (\<lambda>c. ''Context: '' @ c) (implicitContext a) else [])"

definition getConstraints :: "AnalysisResult \<Rightarrow> TechniqueApplication list \<Rightarrow> string list" where
  "getConstraints a techs =
     (if taskType a = Codigo
      then [''Code must be complete and immediately executable'',
            ''Include proper error handling'',
            ''Follow best practices and clean code principles'']
      else [])
     @ (if complexityLevel a = Expert \<or> complexityLevel a = Avancado
        then [''Solution must be optimized and production-ready'',
              ''Consider edge cases and scalability'']
        else [])
     @ (case find (\<lambda>t. technique t = False_restriction) techs of
          Some restrictionTech \<Rightarrow> [implementation restrictionTech]
        | None \<Rightarrow> [])"

definition getFormatGuidelines :: "AnalysisResult \<Rightarrow> string list" where
  "getFormatGuidelines a =
     (if taskType a = Codigo
      then [''Provide complete, runnable code'', ''Include explanatory comments'',
            ''Add usage examples when appropriate'']
      else if taskType a = Educacional
      then [''Clear, didactic explanation'', ''Practical examples'', ''Highlighted key concepts'']
      else if taskType a = Analitica
      then [''Detailed comparative analysis'', ''Pros and cons for each option'',
            ''Evidence-based recommendation'']
      else [''Clear and structured response'', ''Actionable information'',
            ''Examples when relevant''])"

definition buildStructuralRequirements ::
  "AnalysisResult \<Rightarrow> TechniqueApplication list \<Rightarrow> StructuralElements" where
  "buildStructuralRequirements a techs =
     \<lparr> contextRequirements = getContextRequirements a,
       constraintsToObserve = getConstraints a techs,
       outputFormatGuidelines = getFormatGuidelines a \<rparr>"

definition buildThinkingProtocol :: "AnalysisResult \<Rightarrow> string list" where
  "buildThinkingProtocol a =
     [''Step 1: Read and analyze the original request carefully'',
      ''Step 2: Identify the core problem and implicit requirements'',
      ''Step 3: Consider the domain expertise needed'']
     @ (if taskType a = Codigo
        then [''Step 4: Think about architecture, edge cases, and best practices'',
              ''Step 5: Consider error handling and maintainability'']
        else if taskType a = Criativa
        then [''Step 4: Think about innovative approaches and creative constraints'',
              ''Step 5: Consider aesthetic and functional balance'']
        else if taskType a = Analitica
        then [''Step 4: Analyze multiple perspectives and trade-offs'',
              ''Step 5: Formulate evidence-based conclusions'']
        else [])
     @ [''Step 6: Structure the prompt with clear sections and requirements'',
        ''Step 7: Validate that all meta-instructions are incorporated'']"

definition buildGenerationDirective :: "AnalysisResult \<Rightarrow> string" where
  "buildGenerationDirective a =
     (let taskDesc = translateTaskType (taskType a)
      in ''Based on these meta-instructions, generate an optimized prompt that incorporates all the directives above. The prompt should guide the AI to produce ''
         @ taskDesc @ '' output with '' @ complexity_string (complexityLevel a)
         @ '' level sophistication. Remember: you are GENERATING the prompt now, not executing it.'')"

definition buildMetaInstructions ::
  "string \<Rightarrow> AnalysisResult \<Rightarrow> TechniqueApplication list \<Rightarrow> MetaInstructionFramework" where
  "buildMetaInstructions request a techs =
     \<lparr> framework_type = ''meta_instructions'',
       cognitiveAnalysisProtocol = buildCognitiveProtocol a,
       promptEngineeringDirectives = buildEngineeringDirectives a techs,
       requiredStructuralElements = buildStructuralRequirements a techs,
       thinkingProtocol = buildThinkingProtocol a,
       originalRequest = request,
       generationDirective = buildGenerationDirective a \<rparr>"

definition validateMetaInstructions :: "MetaInstructionFramework \<Rightarrow> Validation" where
  "validateMetaInstructions framework =
     (let found =
        (if length (promptEngineeringDirectives framework) = 0
         then [''No prompt engineering directives provided''] else [])
        @ (if \<not> js_includes (toLowerCase (generationDirective framework)) ''generate''
              \<and> \<not> js_includes (toLowerCase (generationDirective framework)) ''construct''
              \<and> \<not> js_includes (toLowerCase (generationDirective framework)) ''build''
           then [''Generation directive does not instruct AI to generate prompt''] else [])
        @ (if length (thinkingProtocol framework) < 3
           then [''Thinking protocol is too shallow (minimum 3 steps)''] else [])
        @ (if length (contextRequirements (requiredStructuralElements framework)) = 0
           then [''Missing context requirements''] else [])
      in \<lparr> isValid = (length found = 0), issues = found \<rparr>)"

section \<open>Justification (PromptFormatter.buildJustification)\<close>

text \<open>An entry \<open>{name, reason}\<close> of the justification.\<close>

record TechniqueJustification =
  tj_name :: string
  tj_reason :: string

record Justification =
  techniques :: "TechniqueJustification list"
  expectedImprovements :: "string list"

definition uses_technique :: "PromptingTechnique \<Rightarrow> TechniqueApplication list \<Rightarrow> bool" where
  "uses_technique t techs = list_ex (\<lambda>x. technique x = t) techs"

definition identifyImprovements ::
  "AnalysisResult \<Rightarrow> TechniqueApplication list \<Rightarrow> string list" where
  "identifyImprovements a techs =
     (if uses_technique Role_prompting techs
      then [''Resposta mais contextualizada e profissional''] else [])
     @ (if uses_technique Iq_attribution techs
        then [''Profundidade de resposta apropriada para n'' @ [CHR 0xED] @ ''vel ''
                @ complexity_string (complexityLevel a)]
        else [])
     @ (if uses_technique Emotion_prompting techs
        then [''Maior aten'' @ [CHR 0xE7, CHR 0xE3] @ ''o a detalhes e qualidade''] else [])
     @ (if taskType a = Codigo
        then [''C'' @ [CHR 0xF3] @ ''digo mais robusto e bem estruturado'',
              ''Melhores pr'' @ [CHR 0xE1] @ ''ticas aplicadas consistentemente'']
        else if taskType a = Educacional
        then [''Explica'' @ [CHR 0xE7, CHR 0xE3] @ ''o mais clara e did'' @ [CHR 0xE1] @ ''tica'',
              ''Conceitos mais bem exemplificados'']
        else [])
     @ (if complexityLevel a = Expert
        then [''Abordagem mais sofisticada e otimizada'',
              ''Considera'' @ [CHR 0xE7, CHR 0xE3] @ ''o de edge cases e cen'' @ [CHR 0xE1]
                @ ''rios complexos'']
        else [])
     @ (if uses_technique Fake_past_consistency techs
        then [''Maior coer'' @ [CHR 0xEA] @ ''ncia e continuidade t'' @ [CHR 0xE9] @ ''cnica'']
        else [])
     @ (if uses_technique Simtom techs
        then [''An'' @ [CHR 0xE1] @ ''lise multi-perspectiva mais completa''] else [])
     @ (if uses_technique Bet_100_dollars techs
        then [''Valida'' @ [CHR 0xE7, CHR 0xE3] @ ''o t'' @ [CHR 0xE9] @ ''cnica mais rigorosa'']
        else [])"

definition buildJustification ::
  "TechniqueApplication list \<Rightarrow> AnalysisResult \<Rightarrow> Justification" where
  "buildJustification techs a =
     \<lparr> techniques =
         map (\<lambda>t. \<lparr> tj_name = displayName (technique t), tj_reason = reason t \<rparr>) techs,
       expectedImprovements = identifyImprovements a techs \<rparr>"

section \<open>Orchestrator (PromptOptimizer)\<close>

record OptimizationRequest =
  user_request :: string
  request_context :: jsvalue

text \<open>
  The field \<open>context\<close> of the request is named \<open>request_context\<close> here.
  The object \<open>analysis\<close> of the result (its fields \<open>originalRequest\<close>, \<open>taskType\<close>
  and \<open>detectedDomain\<close> carry the prefix \<open>ra\<close> here), and the optional
  \<open>qualityScore\<close> of \<open>OptimizationResult\<close>.
\<close>

record ResultAnalysis =
  ra_originalRequest :: string
  ra_taskType :: TaskType
  identifiedObjective :: string
  appliedTechniques :: "PromptingTechnique list"
  ra_detectedDomain :: "string option"

record ResultQualityScore =
  rq_overall :: int
  rq_confidence :: string
  rq_breakdown :: "(string \<times> int) list"

record OptimizationResult =
  result_analysis :: ResultAnalysis
  metaInstructions :: MetaInstructionFramework
  technicalJustification :: Justification
  qualityScore :: "ResultQualityScore option"
  fewShotExamples :: "string option"

text \<open>
  \<open>optimize\<close> runs the analyzer, the selector, the builder and the justification,
  and assembles the result from these four. The fields \<open>detectedDomain\<close>,
  \<open>qualityScore\<close> and \<open>fewShotExamples\<close> are not set.
\<close>

definition optimize :: "nat \<Rightarrow> OptimizationRequest \<Rightarrow> OptimizationResult" where
  "optimize rnd request =
     (let a = analyze (user_request request) (request_context request);
          techs = selectTechniques rnd a;
          meta = buildMetaInstructions (user_request request) a techs;
          justification = buildJustification techs a
      in \<lparr> result_analysis =
             \<lparr> ra_originalRequest = user_request request,
               ra_taskType = taskType a,
               identifiedObjective = mainObjective a,
               appliedTechniques = map technique techs,
               ra_detectedDomain = None \<rparr>,
           metaInstructions = meta,
           technicalJustification = justification,
           qualityScore = None,
           fewShotExamples = None \<rparr>)"

definition validateResult :: "OptimizationResult \<Rightarrow> Validation" where
  "validateResult result =
     (let metaValidation = validateMetaInstructions (metaInstructions result);
          gd = toLowerCase (generationDirective (metaInstructions result));
          found =
            (if identifiedObjective (result_analysis result) = []
                \<or> length (identifiedObjective (result_analysis result)) < 10
             then [''Objetivo n'' @ [CHR 0xE3] @ ''o est'' @ [CHR 0xE1] @ '' claro e bem definido'']
             else [])
            @ (if length (appliedTechniques (result_analysis result)) > 4
               then [''Muitas t'' @ [CHR 0xE9] @ ''cnicas aplicadas (m'' @ [CHR 0xE1] @ ''ximo 4)'']
               else [])
            @ (if length (appliedTechniques (result_analysis result)) < 2
               then [''Poucas t'' @ [CHR 0xE9] @ ''cnicas aplicadas (m'' @ [CHR 0xED] @ ''nimo 2)'']
               else [])
            @ (if \<not> isValid metaValidation then issues metaValidation else [])
            @ (if \<not> js_includes gd ''generate'' \<and> \<not> js_includes gd ''build''
                  \<and> \<not> js_includes gd ''construct''
               then [''CRITICAL: Meta-instructions must instruct AI to GENERATE prompt, not provide it ready'']
               else [])
      in \<lparr> isValid = (length found = 0), issues = found \<rparr>)"

section \<open>Tool handler (LumoraPrompterServer.handleOptimizePrompt)\<close>

datatype ErrorCode = InvalidParams | InternalError | MethodNotFound

datatype McpError = McpError ErrorCode string

text \<open>
  Reading a property of a value: \<open>undefined\<close> and \<open>null\<close> throw a \<open>TypeError\<close>
  (with the message of V8), an object gives the value under the name or
  \<open>undefined\<close>, and a primitive has neither \<open>user_request\<close> nor \<open>context\<close>.
\<close>

datatype TypeError = TypeError string

fun get_property :: "jsvalue \<Rightarrow> string \<Rightarrow> TypeError + jsvalue" where
  "get_property JUndefined name =
     Inl (TypeError (''Cannot read properties of undefined (reading '' @ [CHR 0x27] @ name
                       @ [CHR 0x27] @ '')''))"
| "get_property JNull name =
     Inl (TypeError (''Cannot read properties of null (reading '' @ [CHR 0x27] @ name
                       @ [CHR 0x27] @ '')''))"
| "get_property (JObject props) name =
     Inr (case map_of props name of Some v \<Rightarrow> v | None \<Rightarrow> JUndefined)"
| "get_property v name = Inr JUndefined"

text \<open>
  The handler calls \<open>optimize\<close>, \<open>validateResult\<close> and \<open>formatOutput\<close> in this
  order. \<open>formatOutput\<close> renders the result as Markdown text; it is an argument of
  the model. The first component of the outcome lists the calls made, the second
  is the \<open>McpError\<close> thrown or the text returned.
\<close>

datatype PipelineCall = Call_optimize | Call_validateResult | Call_formatOutput

text \<open>The string behind a value whose \<open>typeof\<close> is \<open>'string'\<close>.\<close>

fun string_of :: "jsvalue \<Rightarrow> string" where
  "string_of (JString s) = s"
| "string_of v = []"

definition invalidParamsMessage :: string where
  "invalidParamsMessage =
     ''user_request '' @ [CHR 0xE9] @ '' obrigat'' @ [CHR 0xF3] @ ''rio e deve ser uma string''"

definition handleOptimizePrompt ::
  "(OptimizationResult \<Rightarrow> Validation \<Rightarrow> string) \<Rightarrow> nat \<Rightarrow> jsvalue
     \<Rightarrow> PipelineCall list \<times> (McpError + string)" where
  "handleOptimizePrompt formatOutput rnd args =
     (case get_property args ''user_request'' of
        Inl (TypeError message) \<Rightarrow>
          ([], Inl (McpError InternalError (''Erro ao otimizar prompt: '' @ message)))
      | Inr ur \<Rightarrow>
          (if \<not> truthy ur \<or> \<not> typeof_string ur
           then ([], Inl (McpError InvalidParams invalidParamsMessage))
           else (case get_property args ''context'' of
                   Inl (TypeError message) \<Rightarrow>
                     ([], Inl (McpError InternalError
                                 (''Erro ao otimizar prompt: '' @ message)))
                 | Inr ctx \<Rightarrow>
                     (let optimizationRequest =
                            \<lparr> user_request = string_of ur, request_context = ctx \<rparr>;
                          result = optimize rnd optimizationRequest;
                          validation = validateResult result;
                          formattedOutput = formatOutput result validation
                      in ([Call_optimize, Call_validateResult, Call_formatOutput],
                          Inr formattedOutput)))))"

section \<open>Domain templates and matcher (DomainMatcher)\<close>

text \<open>The field \<open>taskType\<close> of a template is named \<open>template_taskType\<close> here.\<close>

record DomainTemplate =
  domain :: string
  template_taskType :: TaskType
  roleTemplate :: string
  contextualHints :: "string list"
  structuralGuidelines :: "string list"
  commonPitfalls :: "string list"
  examplePatterns :: "string list"

definition web_frontend :: DomainTemplate where
  "web_frontend =
     \<lparr> domain = ''Frontend Web Development'',
       template_taskType = Codigo,
       roleTemplate = ''senior frontend developer specialized in modern web technologies'',
       contextualHints =
         [''Consider responsive design and mobile-first approach'',
         ''Think about accessibility (WCAG 2.1 guidelines)'',
         ''Performance optimization (Core Web Vitals)'',
         ''SEO implications'',
         ''Browser compatibility''],
       structuralGuidelines =
         [''Component architecture and reusability'',
         ''State management strategy'',
         ''Styling approach (CSS-in-JS, modules, etc)'',
         ''Performance considerations'',
         ''Testing strategy''],
       commonPitfalls =
         [''Avoid inline styles without justification'',
         ''Consider bundle size impact'',
         ''Ensure proper error boundaries'',
         ''Handle loading and error states''],
       examplePatterns =
         [''Use TypeScript for type safety'',
         ''Implement proper prop validation'',
         ''Follow component composition patterns''] \<rparr>"

definition web_backend :: DomainTemplate where
  "web_backend =
     \<lparr> domain = ''Backend Web Development'',
       template_taskType = Codigo,
       roleTemplate = ''senior backend developer specialized in scalable architectures'',
       contextualHints =
         [''Consider scalability and performance'',
         ''Think about database optimization'',
         ''API design best practices (RESTful/GraphQL)'',
         ''Security considerations (OWASP Top 10)'',
         ''Caching strategies''],
       structuralGuidelines =
         [''Clean architecture principles'',
         ''Database schema design'',
         ''API endpoint structure'',
         ''Error handling and logging'',
         ''Authentication/Authorization flow''],
       commonPitfalls =
         [''Avoid N+1 query problems'',
         ''Prevent SQL injection'',
         ''Handle rate limiting'',
         ''Implement proper validation''],
       examplePatterns =
         [''Use dependency injection'',
         ''Implement repository pattern'',
         ''Apply SOLID principles''] \<rparr>"

definition machine_learning :: DomainTemplate where
  "machine_learning =
     \<lparr> domain = ''Machine Learning & AI'',
       template_taskType = Codigo,
       roleTemplate = ''senior ML engineer with deep understanding of algorithms and model optimization'',
       contextualHints =
         [''Consider data preprocessing requirements'',
         ''Think about model interpretability'',
         ''Evaluate computational complexity'',
         ''Address bias and fairness'',
         ''Plan for model monitoring''],
       structuralGuidelines =
         [''Data pipeline architecture'',
         ''Model selection rationale'',
         ''Hyperparameter tuning strategy'',
         ''Evaluation metrics selection'',
         ''Deployment considerations''],
       commonPitfalls =
         [''Avoid data leakage'',
         ''Prevent overfitting'',
         ''Handle class imbalance'',
         ''Consider edge cases in production''],
       examplePatterns =
         [''Use cross-validation properly'',
         ''Implement proper train/val/test splits'',
         ''Document model assumptions''] \<rparr>"

definition data_analysis :: DomainTemplate where
  "data_analysis =
     \<lparr> domain = ''Data Analysis & Visualization'',
       template_taskType = Analitica,
       roleTemplate = ''senior data analyst specialized in statistical analysis and visualization'',
       contextualHints =
         [''Consider statistical significance'',
         ''Think about data quality and outliers'',
         ''Choose appropriate visualization types'',
         ''Address missing data'',
         ''Ensure reproducibility''],
       structuralGuidelines =
         [''Exploratory data analysis steps'',
         ''Statistical test selection'',
         ''Visualization design principles'',
         ''Interpretation guidelines'',
         ''Reporting format''],
       commonPitfalls =
         [''Avoid correlation-causation confusion'',
         ''Be aware of Simpson'' @ [CHR 0x27] @ ''s paradox'',
         ''Handle missing data appropriately'',
         ''Choose correct statistical tests''],
       examplePatterns =
         [''Document data transformations'',
         ''Provide context for metrics'',
         ''Include confidence intervals''] \<rparr>"

definition devops :: DomainTemplate where
  "devops =
     \<lparr> domain = ''DevOps & Infrastructure'',
       template_taskType = Tecnica,
       roleTemplate = ''senior DevOps engineer specialized in cloud infrastructure and automation'',
       contextualHints =
         [''Consider infrastructure as code practices'',
         ''Think about CI/CD pipeline optimization'',
         ''Evaluate cost implications'',
         ''Plan for disaster recovery'',
         ''Address security compliance''],
       structuralGuidelines =
         [''Infrastructure architecture'',
         ''Deployment strategy'',
         ''Monitoring and alerting setup'',
         ''Backup and recovery procedures'',
         ''Security hardening steps''],
       commonPitfalls =
         [''Avoid hardcoded credentials'',
         ''Prevent configuration drift'',
         ''Handle secrets management'',
         ''Implement proper logging''],
       examplePatterns =
         [''Use declarative configurations'',
         ''Implement blue-green deployments'',
         ''Apply principle of least privilege''] \<rparr>"

definition security :: DomainTemplate where
  "security =
     \<lparr> domain = ''Cybersecurity & Application Security'',
       template_taskType = Tecnica,
       roleTemplate = ''senior security engineer specialized in application and infrastructure security'',
       contextualHints =
         [''Consider OWASP Top 10 vulnerabilities'',
         ''Think about defense in depth'',
         ''Evaluate attack surface'',
         ''Plan for incident response'',
         ''Address compliance requirements''],
       structuralGuidelines =
         [''Threat modeling approach'',
         ''Security controls implementation'',
         ''Vulnerability assessment process'',
         ''Security testing strategy'',
         ''Documentation requirements''],
       commonPitfalls =
         [''Avoid security through obscurity'',
         ''Never trust user input'',
         ''Implement proper session management'',
         ''Use secure cryptographic practices''],
       examplePatterns =
         [''Apply principle of least privilege'',
         ''Implement defense in depth'',
         ''Use secure defaults''] \<rparr>"

definition database_design :: DomainTemplate where
  "database_design =
     \<lparr> domain = ''Database Design & Optimization'',
       template_taskType = Codigo,
       roleTemplate = ''senior database architect specialized in data modeling and performance optimization'',
       contextualHints =
         [''Consider normalization vs denormalization tradeoffs'',
         ''Think about query performance'',
         ''Evaluate indexing strategy'',
         ''Plan for data growth'',
         ''Address data integrity''],
       structuralGuidelines =
         [''Entity-relationship modeling'',
         ''Schema design decisions'',
         ''Index strategy'',
         ''Query optimization'',
         ''Transaction management''],
       commonPitfalls =
         [''Avoid over-normalization'',
         ''Prevent index bloat'',
         ''Handle concurrent access properly'',
         ''Consider query execution plans''],
       examplePatterns =
         [''Use appropriate data types'',
         ''Implement proper constraints'',
         ''Design for query patterns''] \<rparr>"

definition system_design :: DomainTemplate where
  "system_design =
     \<lparr> domain = ''Distributed Systems & Architecture'',
       template_taskType = Tecnica,
       roleTemplate = ''senior systems architect specialized in distributed systems and scalability'',
       contextualHints =
         [''Consider CAP theorem tradeoffs'',
         ''Think about consistency models'',
         ''Evaluate latency requirements'',
         ''Plan for failure scenarios'',
         ''Address network partitions''],
       structuralGuidelines =
         [''Architecture diagram and components'',
         ''Communication patterns'',
         ''Data flow and storage'',
         ''Scalability strategy'',
         ''Failure handling''],
       commonPitfalls =
         [''Avoid single points of failure'',
         ''Consider network unreliability'',
         ''Handle eventual consistency'',
         ''Prevent cascading failures''],
       examplePatterns =
         [''Use circuit breakers'',
         ''Implement retry with backoff'',
         ''Apply saga pattern for transactions''] \<rparr>"

definition ui_ux_design :: DomainTemplate where
  "ui_ux_design =
     \<lparr> domain = ''UI/UX Design'',
       template_taskType = Criativa,
       roleTemplate = ''senior UX designer specialized in user-centered design'',
       contextualHints =
         [''Consider user research findings'',
         ''Think about accessibility'',
         ''Evaluate cognitive load'',
         ''Plan for different devices'',
         ''Address user pain points''],
       structuralGuidelines =
         [''User journey mapping'',
         ''Information architecture'',
         ''Interaction design patterns'',
         ''Visual hierarchy'',
         ''Usability testing plan''],
       commonPitfalls =
         [''Avoid design for designers'',
         ''Don'' @ [CHR 0x27] @ ''t ignore edge cases'',
         ''Prevent feature bloat'',
         ''Consider loading states''],
       examplePatterns =
         [''Follow platform conventions'',
         ''Apply progressive disclosure'',
         ''Use consistent patterns''] \<rparr>"

definition api_design :: DomainTemplate where
  "api_design =
     \<lparr> domain = ''API Design & Integration'',
       template_taskType = Tecnica,
       roleTemplate = ''senior API architect specialized in RESTful and GraphQL design'',
       contextualHints =
         [''Consider API versioning strategy'',
         ''Think about rate limiting'',
         ''Evaluate authentication methods'',
         ''Plan for backward compatibility'',
         ''Address documentation needs''],
       structuralGuidelines =
         [''Endpoint design and naming'',
         ''Request/response structure'',
         ''Error handling format'',
         ''Authentication flow'',
         ''Documentation approach''],
       commonPitfalls =
         [''Avoid chatty APIs'',
         ''Prevent over-fetching/under-fetching'',
         ''Handle pagination properly'',
         ''Implement proper versioning''],
       examplePatterns =
         [''Use standard HTTP methods correctly'',
         ''Implement HATEOAS principles'',
         ''Follow OpenAPI specification''] \<rparr>"

definition algorithms :: DomainTemplate where
  "algorithms =
     \<lparr> domain = ''Algorithms & Data Structures'',
       template_taskType = Codigo,
       roleTemplate = ''senior algorithms specialist with deep understanding of computational complexity'',
       contextualHints =
         [''Consider time and space complexity'',
         ''Think about edge cases'',
         ''Evaluate algorithm correctness'',
         ''Plan for large inputs'',
         ''Address optimization opportunities''],
       structuralGuidelines =
         [''Algorithm description and intuition'',
         ''Complexity analysis (Big-O)'',
         ''Implementation with comments'',
         ''Test cases including edge cases'',
         ''Optimization discussion''],
       commonPitfalls =
         [''Avoid premature optimization'',
         ''Consider integer overflow'',
         ''Handle empty inputs'',
         ''Test with large datasets''],
       examplePatterns =
         [''Start with brute force, then optimize'',
         ''Use appropriate data structures'',
         ''Document time/space tradeoffs''] \<rparr>"

text \<open>\<open>Object.values(DOMAIN_TEMPLATES)\<close>: the templates in the order of their keys.\<close>

definition DOMAIN_TEMPLATES :: "DomainTemplate list" where
  "DOMAIN_TEMPLATES =
     [web_frontend, web_backend, machine_learning, data_analysis, devops, security,
      database_design, system_design, ui_ux_design, api_design, algorithms]"

text \<open>
  The score of one template, as the body of the loop computes it: 5 for the task
  type, then the words of the domain name, then the keywords of the user.
\<close>

definition templateScore :: "string \<Rightarrow> string list \<Rightarrow> TaskType \<Rightarrow> DomainTemplate \<Rightarrow> nat" where
  "templateScore lowerRequest kws tt template =
     (let score0 = (if template_taskType template = tt then 5 else 0);
          domainKeywords = split_ws (toLowerCase (domain template));
          score1 = fold (\<lambda>keyword score.
                           if js_includes lowerRequest keyword then score + 3 else score)
                     domainKeywords score0;
          score2 = fold (\<lambda>keyword score.
                           if js_includes (toLowerCase (domain template)) keyword
                           then score + 2 else score)
                     kws score1
      in score2)"

definition domainScores ::
  "string \<Rightarrow> string list \<Rightarrow> TaskType \<Rightarrow> (DomainTemplate \<times> nat) list" where
  "domainScores request kws tt =
     (let lowerRequest = toLowerCase request
      in filter (\<lambda>(template, score). score > 0)
           (map (\<lambda>template. (template, templateScore lowerRequest kws tt template))
              DOMAIN_TEMPLATES))"

definition matchDomain :: "string \<Rightarrow> string list \<Rightarrow> TaskType \<Rightarrow> DomainTemplate option" where
  "matchDomain request kws tt =
     (case sort_desc snd (domainScores request kws tt) of
        [] \<Rightarrow> None
      | best # _ \<Rightarrow> if snd best \<ge> 5 then Some (fst best) else None)"

definition getContextualHints :: "DomainTemplate \<Rightarrow> ComplexityLevel \<Rightarrow> string list" where
  "getContextualHints template level =
     contextualHints template
     @ (if level = Expert \<or> level = Avancado then commonPitfalls template else [])"

section \<open>Quality evaluator (QualityEvaluator)\<close>

record ScoreBreakdown =
  clarity :: int
  completeness :: int
  specificity :: int
  techniqueBalance :: int
  actionability :: int

datatype Confidence = High | Medium | Low

record QualityScore =
  overall :: int
  breakdown :: ScoreBreakdown
  strengths :: "string list"
  improvements :: "string list"
  confidence :: Confidence

text \<open>
  \<open>avgDirectiveLength\<close> is the quotient of two integers; no function reads it, and
  it is kept as the exact quotient.
\<close>

record MetaInstructionMetrics =
  directiveCount :: nat
  avgDirectiveLength :: rat
  structuralElementsCount :: nat
  thinkingSteps :: nat
  techniquesCovered :: nat
  hasExamples :: bool
  hasFallbacks :: bool

definition calculateMetrics :: "MetaInstructionFramework \<Rightarrow> MetaInstructionMetrics" where
  "calculateMetrics m =
     (let directives = promptEngineeringDirectives m;
          avgLength = (if length directives > 0
                       then of_nat (fold (\<lambda>d acc. acc + length (directive d)) directives 0)
                              / of_nat (length directives)
                       else 0);
          structuralCount =
            length (contextRequirements (requiredStructuralElements m))
            + length (constraintsToObserve (requiredStructuralElements m))
            + length (outputFormatGuidelines (requiredStructuralElements m))
      in \<lparr> directiveCount = length directives,
           avgDirectiveLength = avgLength,
           structuralElementsCount = structuralCount,
           thinkingSteps = length (thinkingProtocol m),
           techniquesCovered = length directives,
           hasExamples = False,
           hasFallbacks = False \<rparr>)"

text \<open>\<open>Math.max(0, Math.min(100, score))\<close>\<close>

definition clamp_score :: "int \<Rightarrow> int" where
  "clamp_score score = max 0 (min 100 score)"

definition clarityPenalty :: "Directive \<Rightarrow> int" where
  "clarityPenalty d =
     (if length (directive d) < 30 then 5 else 0)
     + (if length (directive d) > 200 then 3 else 0)
     + (if reasoning d = [] \<or> length (reasoning d) < 20 then 8 else 0)"

definition evaluateClarity :: "MetaInstructionFramework \<Rightarrow> MetaInstructionMetrics \<Rightarrow> int" where
  "evaluateClarity m metrics =
     (let score0 = fold (\<lambda>d score. score - clarityPenalty d) (promptEngineeringDirectives m) 100;
          score1 = (if thinkingSteps metrics < 4 then score0 - 10 else score0);
          score2 = (if thinkingSteps metrics > 10 then score1 - 5 else score1);
          score3 = (if \<not> js_includes (generationDirective m) ''generate''
                       \<and> \<not> js_includes (generationDirective m) ''construct''
                       \<and> \<not> js_includes (generationDirective m) ''build''
                    then score2 - 15 else score2)
      in clamp_score score3)"

definition evaluateCompleteness :: "MetaInstructionFramework \<Rightarrow> MetaInstructionMetrics \<Rightarrow> int" where
  "evaluateCompleteness m metrics =
     (let structural = requiredStructuralElements m;
          score =
            (if length (taskIdentification (cognitiveAnalysisProtocol m)) > 10 then 7 else 0)
            + (if length (complexityAssessment (cognitiveAnalysisProtocol m)) > 10 then 7 else 0)
            + (if length (objectiveClarity (cognitiveAnalysisProtocol m)) > 10 then 6 else 0)
            + (if directiveCount metrics \<ge> 3 then 10 else 0)
            + (if directiveCount metrics \<ge> 4 then 8 else 0)
            + (if directiveCount metrics \<ge> 5 then 7 else 0)
            + (if length (contextRequirements structural) > 0 then 8 else 0)
            + (if length (outputFormatGuidelines structural) > 0 then 9 else 0)
            + (if length (constraintsToObserve structural) > 0 then 8 else 0)
            + (if thinkingSteps metrics \<ge> 4 then 10 else 0)
            + (if thinkingSteps metrics \<ge> 6 then 10 else 0)
            + (if length (generationDirective m) > 50 then 10 else 0)
      in min 100 score)"

definition genericPhrases :: "string list" where
  "genericPhrases = [''appropriate'', ''relevant'', ''suitable'', ''proper'']"

definition evaluateSpecificity :: "MetaInstructionFramework \<Rightarrow> AnalysisResult \<Rightarrow> int" where
  "evaluateSpecificity m a =
     (let hasKeywordInDirectives =
            list_ex (\<lambda>d. list_ex (\<lambda>kw. js_includes (toLowerCase (directive d)) (toLowerCase kw))
                            (keywordList a))
              (promptEngineeringDirectives m);
          contextReqs = contextRequirements (requiredStructuralElements m);
          constraints = constraintsToObserve (requiredStructuralElements m);
          genericCount =
            length (filter (\<lambda>d. list_ex (\<lambda>phrase. js_includes (toLowerCase (directive d)) phrase)
                                    genericPhrases)
                      (promptEngineeringDirectives m));
          score =
            70
            + (if hasKeywordInDirectives then 15 else 0)
            + (if length contextReqs \<ge> 3 then 10 else 0)
            + (if list_ex (\<lambda>req. length req > 30) contextReqs then 5 else 0)
            + (if length constraints > 0 then 5 else 0)
            - int genericCount * 3
      in clamp_score score)"

definition evaluateTechniqueBalance :: "TechniqueApplication list \<Rightarrow> int" where
  "evaluateTechniqueBalance techs =
     (let hasMandatory =
            list_ex (\<lambda>t. technique t \<in> set [Role_prompting, Iq_attribution]) techs;
          mandatoryCount =
            length (filter (\<lambda>t. technique t
                                \<in> set [Role_prompting, Iq_attribution, Emotion_prompting]) techs);
          situationalCount = int (length techs) - int mandatoryCount;
          score =
            100
            - (if length techs < 3 then 20 else 0)
            - (if length techs > 5 then (int (length techs) - 5) * 10 else 0)
            - (if \<not> hasMandatory then 30 else 0)
            + (if mandatoryCount \<ge> 2 \<and> situationalCount \<ge> 1 \<and> situationalCount \<le> 2
               then 10 else 0)
      in clamp_score score)"

definition actionVerbs :: "string list" where
  "actionVerbs =
     [''apply'', ''implement'', ''use'', ''include'', ''add'', ''create'', ''define'', ''specify'']"

text \<open>
  \<open>/step\s+\d+/i.test(s)\<close>: somewhere in \<open>s\<close> the word "step" in either case, then
  at least one white space, then a digit.
\<close>

definition step_number_here :: "string \<Rightarrow> bool" where
  "step_number_here s =
     (startsWith_ci s ''step'' \<and>
      (case drop 4 s of
         [] \<Rightarrow> False
       | c # cs \<Rightarrow> isWhiteSpace c \<and>
                  (case dropWhile isWhiteSpace cs of [] \<Rightarrow> False | d # _ \<Rightarrow> isDigit d)))"

fun has_step_number :: "string \<Rightarrow> bool" where
  "has_step_number [] = False"
| "has_step_number (c # cs) = (step_number_here (c # cs) \<or> has_step_number cs)"

definition evaluateActionability :: "MetaInstructionFramework \<Rightarrow> int" where
  "evaluateActionability m =
     (let actionableCount =
            length (filter (\<lambda>d. list_ex (\<lambda>verb. js_includes (toLowerCase (directive d)) verb)
                                    actionVerbs)
                      (promptEngineeringDirectives m));
          hasStepNumbers = list_ex has_step_number (thinkingProtocol m);
          vagueCount =
            length (filter (\<lambda>d. length (directive d) < 40 \<or> reasoning d = [])
                      (promptEngineeringDirectives m));
          score =
            80
            + min 20 (int actionableCount * 4)
            + (if hasStepNumbers then 5 else 0)
            + (if js_includes (toLowerCase (generationDirective m)) ''based on these''
                  \<or> js_includes (toLowerCase (generationDirective m)) ''following these''
               then 5 else 0)
            - int vagueCount * 5
      in clamp_score score)"

text \<open>
  The weighted sum is computed in binary64 arithmetic. \<open>ulp x\<close> is the distance
  between neighbouring binary64 numbers around \<open>x\<close> for \<open>1/8 \<le> |x| < 128\<close>, the
  range of the weights, of the products and of the partial sums of scores between
  0 and 100; \<open>round_double\<close> rounds to the nearest such number, a tie to the one
  with an even significand. \<open>Math.round\<close> gives the integer nearest to its
  argument, a tie going up.
\<close>

definition ulp :: "rat \<Rightarrow> rat" where
  "ulp x =
     (if \<bar>x\<bar> < 1 / 4 then 1 / 2 ^ 55
      else if \<bar>x\<bar> < 1 / 2 then 1 / 2 ^ 54
      else if \<bar>x\<bar> < 1 then 1 / 2 ^ 53
      else if \<bar>x\<bar> < 2 then 1 / 2 ^ 52
      else if \<bar>x\<bar> < 4 then 1 / 2 ^ 51
      else if \<bar>x\<bar> < 8 then 1 / 2 ^ 50
      else if \<bar>x\<bar> < 16 then 1 / 2 ^ 49
      else if \<bar>x\<bar> < 32 then 1 / 2 ^ 48
      else if \<bar>x\<bar> < 64 then 1 / 2 ^ 47
      else 1 / 2 ^ 46)"

definition round_even :: "rat \<Rightarrow> int" where
  "round_even y =
     (let f = \<lfloor>y\<rfloor>
      in if y - of_int f < 1 / 2 then f
         else if y - of_int f > 1 / 2 then f + 1
         else if even f then f else f + 1)"

definition round_double :: "rat \<Rightarrow> rat" where
  "round_double x = of_int (round_even (x / ulp x)) * ulp x"

definition double_mult :: "rat \<Rightarrow> rat \<Rightarrow> rat" where
  "double_mult x y = round_double (x * y)"

definition double_add :: "rat \<Rightarrow> rat \<Rightarrow> rat" where
  "double_add x y = round_double (x + y)"

definition Math_round :: "rat \<Rightarrow> int" where
  "Math_round x = \<lfloor>x + 1 / 2\<rfloor>"

text \<open>The weights, as the binary64 numbers that the literals 0.25, 0.20 and 0.15 denote.\<close>

definition weight_clarity :: rat where "weight_clarity = round_double (25 / 100)"
definition weight_completeness :: rat where "weight_completeness = round_double (25 / 100)"
definition weight_specificity :: rat where "weight_specificity = round_double (20 / 100)"
definition weight_techniqueBalance :: rat where "weight_techniqueBalance = round_double (15 / 100)"
definition weight_actionability :: rat where "weight_actionability = round_double (15 / 100)"

text \<open>
  The loop over the entries of the breakdown, in the order in which
  \<open>evaluateQuality\<close> writes them: \<open>overall += value * weight\<close>.
\<close>

definition calculateOverallScore :: "ScoreBreakdown \<Rightarrow> int" where
  "calculateOverallScore b =
     (let overall0 = 0;
          overall1 = double_add overall0 (double_mult (of_int (clarity b)) weight_clarity);
          overall2 = double_add overall1 (double_mult (of_int (completeness b)) weight_completeness);
          overall3 = double_add overall2 (double_mult (of_int (specificity b)) weight_specificity);
          overall4 = double_add overall3
                       (double_mult (of_int (techniqueBalance b)) weight_techniqueBalance);
          overall5 = double_add overall4
                       (double_mult (of_int (actionability b)) weight_actionability)
      in Math_round overall5)"

definition identifyStrengths :: "ScoreBreakdown \<Rightarrow> MetaInstructionMetrics \<Rightarrow> string list" where
  "identifyStrengths b metrics =
     (if clarity b \<ge> 85 then [''Exceptionally clear and well-structured directives''] else [])
     @ (if completeness b \<ge> 85
        then [''Comprehensive coverage of all necessary elements''] else [])
     @ (if specificity b \<ge> 85
        then [''Highly specific and domain-relevant instructions''] else [])
     @ (if techniqueBalance b \<ge> 85 then [''Optimal balance of prompting techniques''] else [])
     @ (if actionability b \<ge> 85
        then [''Clear, actionable directives easy to follow''] else [])
     @ (if thinkingSteps metrics \<ge> 6
        then [''Detailed thinking protocol for systematic approach''] else [])
     @ (if structuralElementsCount metrics \<ge> 6
        then [''Rich structural requirements for comprehensive output''] else [])"

definition identifyQualityImprovements ::
  "ScoreBreakdown \<Rightarrow> MetaInstructionMetrics \<Rightarrow> string list" where
  "identifyQualityImprovements b metrics =
     (if clarity b < 70
      then [''Increase clarity of directives with more specific language''] else [])
     @ (if completeness b < 70
        then [''Add missing structural elements or thinking steps''] else [])
     @ (if specificity b < 70
        then [''Make instructions more domain-specific and less generic''] else [])
     @ (if techniqueBalance b < 70
        then [''Adjust number of techniques for better cognitive balance''] else [])
     @ (if actionability b < 70
        then [''Use more action verbs and specific implementation guidance''] else [])
     @ (if directiveCount metrics < 3 then [''Add more prompt engineering directives''] else [])
     @ (if thinkingSteps metrics < 5
        then [''Expand thinking protocol with more detailed steps''] else [])
     @ (if structuralElementsCount metrics < 4
        then [''Include more structural requirements and constraints''] else [])"

definition assessConfidence :: "int \<Rightarrow> MetaInstructionMetrics \<Rightarrow> Confidence" where
  "assessConfidence overallScore metrics =
     (if overallScore \<ge> 85 \<and> directiveCount metrics \<ge> 4 \<and> thinkingSteps metrics \<ge> 5 then High
      else if overallScore \<ge> 70 \<and> directiveCount metrics \<ge> 3 then Medium
      else Low)"

definition evaluateQuality ::
  "MetaInstructionFramework \<Rightarrow> AnalysisResult \<Rightarrow> TechniqueApplication list \<Rightarrow> QualityScore" where
  "evaluateQuality m a techs =
     (let metrics = calculateMetrics m;
          b = \<lparr> clarity = evaluateClarity m metrics,
                completeness = evaluateCompleteness m metrics,
                specificity = evaluateSpecificity m a,
                techniqueBalance = evaluateTechniqueBalance techs,
                actionability = evaluateActionability m \<rparr>;
          overallScore = calculateOverallScore b
      in \<lparr> overall = overallScore,
           breakdown = b,
           strengths = identifyStrengths b metrics,
           improvements = identifyQualityImprovements b metrics,
           confidence = assessConfidence overallScore metrics \<rparr>)"

section \<open>The scores in the words of the specification\<close>

text \<open>
  The score of a template as the specification states it: 5 when the task types
  agree, 3 for each word of the domain name that occurs in the request in lower
  case, 2 for each keyword of the user that occurs in the domain name in lower case.
\<close>

definition spec_templateScore ::
  "string \<Rightarrow> string list \<Rightarrow> TaskType \<Rightarrow> DomainTemplate \<Rightarrow> nat" where
  "spec_templateScore request kws tt template =
     (if template_taskType template = tt then 5 else 0)
     + 3 * length (filter (\<lambda>w. js_includes (toLowerCase request) w)
                     (split_ws (toLowerCase (domain template))))
     + 2 * length (filter (\<lambda>k. js_includes (toLowerCase (domain template)) k) kws)"

text \<open>The weighted sum of a breakdown as the specification states it, in exact arithmetic.\<close>

definition weighted_sum :: "ScoreBreakdown \<Rightarrow> rat" where
  "weighted_sum b =
     of_int (clarity b) * (25 / 100) + of_int (completeness b) * (25 / 100)
     + of_int (specificity b) * (20 / 100) + of_int (techniqueBalance b) * (15 / 100)
     + of_int (actionability b) * (15 / 100)"

section \<open>Notions used in the proofs\<close>

text \<open>The binary64 value that \<open>calculateOverallScore\<close> hands to \<open>Math.round\<close>.\<close>

definition float_sum :: "ScoreBreakdown \<Rightarrow> rat" where
  "float_sum b =
     double_add (double_add (double_add (double_add (double_add 0
       (double_mult (of_int (clarity b)) weight_clarity))
       (double_mult (of_int (completeness b)) weight_completeness))
       (double_mult (of_int (specificity b)) weight_specificity))
       (double_mult (of_int (techniqueBalance b)) weight_techniqueBalance))
       (double_mult (of_int (actionability b)) weight_actionability)"

text \<open>A breakdown whose five scores lie between 0 and 100.\<close>

definition in_score_range :: "ScoreBreakdown \<Rightarrow> bool" where
  "in_score_range b \<longleftrightarrow>
     0 \<le> clarity b \<and> clarity b \<le> 100 \<and> 0 \<le> completeness b \<and> completeness b \<le> 100
     \<and> 0 \<le> specificity b \<and> specificity b \<le> 100
     \<and> 0 \<le> techniqueBalance b \<and> techniqueBalance b \<le> 100
     \<and> 0 \<le> actionability b \<and> actionability b \<le> 100"

text \<open>
  The ten numbers that \<open>calculateOverallScore\<close> rounds to binary64, in the order
  of the computation: each product and each sum before it is rounded.
\<close>

definition rounding_arguments :: "ScoreBreakdown \<Rightarrow> rat list" where
  "rounding_arguments b =
     (let m1 = of_int (clarity b) * weight_clarity;
          a1 = 0 + round_double m1;
          m2 = of_int (completeness b) * weight_completeness;
          a2 = round_double a1 + round_double m2;
          m3 = of_int (specificity b) * weight_specificity;
          a3 = round_double a2 + round_double m3;
          m4 = of_int (techniqueBalance b) * weight_techniqueBalance;
          a4 = round_double a3 + round_double m4;
          m5 = of_int (actionability b) * weight_actionability;
          a5 = round_double a4 + round_double m5
      in [m1, a1, m2, a2, m3, a3, m4, a4, m5, a5])"

text \<open>The range on which \<open>ulp\<close> is the spacing of the binary64 numbers (and zero).\<close>

definition in_ulp_range :: "rat \<Rightarrow> bool" where
  "in_ulp_range x \<longleftrightarrow> x = 0 \<or> (1 / 8 \<le> \<bar>x\<bar> \<and> \<bar>x\<bar> < 128)"

section \<open>Shared facts\<close>

lemma complexityLevel_analyze [simp]:
  "complexityLevel (analyze request ctx) = assessComplexity request"
  by (simp add: analyze_def secondReading_def firstReading_def)

lemma taskType_analyze [simp]:
  "taskType (analyze request ctx) = identifyTaskType request"
  by (simp add: analyze_def secondReading_def firstReading_def)

lemma count_included_zero:
  "count_included s ws = 0 \<longleftrightarrow> (\<forall>w \<in> set ws. \<not> js_includes s w)"
  by (simp add: count_included_def filter_empty_conv)

lemma taskType_scores_empty:
  assumes "\<forall>(t, ws) \<in> set patterns. \<forall>w \<in> set ws. \<not> js_includes (toLowerCase request) w"
  shows "taskType_scores request = []"
  using assms
  by (auto simp: taskType_scores_def Let_def filter_empty_conv count_included_zero)

lemma startsWith_append:
  "startsWith s p \<Longrightarrow> startsWith (s @ ys) p"
  by (induction s p rule: startsWith.induct) simp_all

lemma js_includes_append_left:
  "js_includes xs p \<Longrightarrow> js_includes (xs @ ys) p"
proof (induction xs)
  case Nil
  then show ?case by (cases ys) simp_all
next
  case (Cons c cs)
  from Cons.prems have "startsWith (c # cs) p \<or> js_includes cs p" by simp
  then show ?case
  proof
    assume "startsWith (c # cs) p"
    then have "startsWith ((c # cs) @ ys) p" by (rule startsWith_append)
    then show ?thesis by simp
  next
    assume "js_includes cs p"
    then have "js_includes (cs @ ys) p" by (rule Cons.IH)
    then show ?thesis by simp
  qed
qed

lemma toLowerCase_append:
  "toLowerCase (xs @ ys) = toLowerCase xs @ toLowerCase ys"
  by (simp add: toLowerCase_def)

lemma sort_desc_set [simp]: "set (sort_desc sc xs) = set xs"
  by (simp add: sort_desc_def)

lemma sort_desc_length [simp]: "length (sort_desc sc xs) = length xs"
  by (simp add: sort_desc_def)

lemma sort_desc_distinct_map:
  "distinct (map g (sort_desc sc xs)) \<longleftrightarrow> distinct (map g xs)"
  by (simp add: distinct_map sort_desc_def)

text \<open>The sort is stable: elements of equal score keep their order.\<close>

lemma sort_desc_stable:
  "filter (\<lambda>x. sc x = k) (sort_desc sc xs) = filter (\<lambda>x. sc x = k) xs"
proof -
  have "filter (\<lambda>x. - int (sc x) = - int k) (sort_key (\<lambda>x. - int (sc x)) xs)
        = filter (\<lambda>x. - int (sc x) = - int k) xs"
    by (rule sort_key_stable)
  then show ?thesis by (simp add: sort_desc_def)
qed

lemma sort_desc_Nil: "sort_desc sc xs = [] \<longleftrightarrow> xs = []"
proof -
  have "length (sort_desc sc xs) = length xs" by (simp add: sort_desc_def)
  then show ?thesis by (metis length_0_conv)
qed

lemma sort_desc_head_max:
  assumes "sort_desc sc xs = b # rest"
  shows "b \<in> set xs \<and> (\<forall>x \<in> set xs. sc x \<le> sc b)"
proof -
  have s: "set (sort_desc sc xs) = set xs" by (simp add: sort_desc_def)
  have "sorted (map (\<lambda>x. - int (sc x)) (sort_desc sc xs))"
    by (simp add: sort_desc_def)
  with assms have "\<forall>y \<in> set rest. - int (sc b) \<le> - int (sc y)" by simp
  then have "\<forall>y \<in> set (b # rest). sc y \<le> sc b" by auto
  with assms s show ?thesis by (metis list.set_intros(1))
qed

section \<open>The string operations on examples\<close>

lemma toLowerCase_examples:
  "toLowerCase (''C'' @ [CHR 0xD3] @ ''DIGO Api'') = ''c'' @ [CHR 0xF3] @ ''digo api''"
  "toLowerCase [CHR 0xD7, CHR 0xDF] = [CHR 0xD7, CHR 0xDF]"
  by code_simp+

lemma split_ws_examples:
  "split_ws [] = [[]]"
  "split_ws '' a  b '' = [[], ''a'', ''b'', []]"
  "wordCount ''Create a REST API for user authentication with JWT'' = 9"
  by code_simp+

lemma js_includes_examples:
  "js_includes ''abc'' []"
  "js_includes ''rest api'' ''api''"
  "\<not> js_includes ''rest'' ''api''"
  by code_simp+

lemma hasCodeTerms_examples:
  "hasCodeTerms ''my API.''"
  "\<not> hasCodeTerms ''apis''"
  "\<not> hasCodeTerms ''rapid''"
  by code_simp+

lemma has_step_number_examples:
  "has_step_number ''Step 1: Read''"
  "\<not> has_step_number ''Step: Read''"
  by code_simp+

lemma extractKeywords_example:
  "extractKeywords ''Create a REST API for user authentication with JWT''
   = [''create'', ''authentication'']"
  by code_simp

lemma number_string_examples:
  "number_string 160 = ''160''" "number_string 0 = ''0''" "number_string (- 7) = ''-7''"
  by code_simp+

section \<open>Technique selector: the number of techniques\<close>

text \<open>
  C1. The selector is documented to return at most four techniques (the golden rule).
  For the request "Create a REST API for user authentication with JWT" it returns
  five: the three mandatory ones (role, IQ and emotion, the last because the task is
  code and the complexity is not basic) and two situational ones.
\<close>

theorem selectTechniques_returns_five:
  "map technique
     (selectTechniques rnd
        (analyze ''Create a REST API for user authentication with JWT'' JUndefined))
   = [Role_prompting, Iq_attribution, Emotion_prompting, Bet_100_dollars, Rar]"
  by code_simp

text \<open>
  The validator of the orchestrator reports this result: it counts more than four
  applied techniques as an issue.
\<close>

lemma validateResult_flags_five_techniques:
  "issues (validateResult
     (optimize rnd \<lparr> user_request = ''Create a REST API for user authentication with JWT'',
                      request_context = JUndefined \<rparr>))
   = [''Muitas t'' @ [CHR 0xE9] @ ''cnicas aplicadas (m'' @ [CHR 0xE1] @ ''ximo 4)'']"
  by code_simp

text \<open>
  What holds for every analysis result: the selector returns between two and five
  techniques, and no technique twice.
\<close>

lemma optional_member:
  "t \<in> f ` set ((if c then [x] else []) @ rest) \<longleftrightarrow> (c \<and> t = f x) \<or> t \<in> f ` set rest"
  "t \<in> f ` set (if c then [x] else []) \<longleftrightarrow> c \<and> t = f x"
  by (cases c; auto)+

lemma optional_distinct:
  "distinct (map f ((if c then [x] else []) @ rest))
     \<longleftrightarrow> (c \<longrightarrow> f x \<notin> f ` set rest) \<and> distinct (map f rest)"
  "distinct (map f (if c then [x] else []))"
  by (cases c; auto)+

lemma selectSituationalTechniques_facts:
  "distinct (map technique (selectSituationalTechniques rnd a))
   \<and> technique ` set (selectSituationalTechniques rnd a)
       \<subseteq> {Fake_past_consistency, Fake_audience, False_restriction, Someone_disagrees,
          Bet_100_dollars, Simtom, Rar}"
proof
  show "distinct (map technique (selectSituationalTechniques rnd a))"
    unfolding selectSituationalTechniques_def rankCandidates_def Let_def sort_desc_distinct_map
    by (simp only: optional_distinct optional_member) simp
  show "technique ` set (selectSituationalTechniques rnd a)
       \<subseteq> {Fake_past_consistency, Fake_audience, False_restriction, Someone_disagrees,
          Bet_100_dollars, Simtom, Rar}"
  proof
    fix t assume "t \<in> technique ` set (selectSituationalTechniques rnd a)"
    then have "t = Fake_past_consistency \<or> t = Fake_audience \<or> t = False_restriction
               \<or> t = Someone_disagrees \<or> t = Bet_100_dollars \<or> t = Simtom \<or> t = Rar"
      unfolding selectSituationalTechniques_def rankCandidates_def Let_def sort_desc_set
      by (simp only: optional_member) auto
    then show "t \<in> {Fake_past_consistency, Fake_audience, False_restriction, Someone_disagrees,
          Bet_100_dollars, Simtom, Rar}" by blast
  qed
qed

lemma applyMandatoryTechniques_facts:
  "distinct (map technique (applyMandatoryTechniques a))
   \<and> technique ` set (applyMandatoryTechniques a) \<subseteq> {Role_prompting, Iq_attribution, Emotion_prompting}
   \<and> 2 \<le> length (applyMandatoryTechniques a) \<and> length (applyMandatoryTechniques a) \<le> 3"
  by (simp add: applyMandatoryTechniques_def)

lemma selectTechniques_bounds_and_distinct:
  "2 \<le> length (selectTechniques rnd a) \<and> length (selectTechniques rnd a) \<le> 5
   \<and> distinct (map technique (selectTechniques rnd a))"
proof -
  let ?m = "applyMandatoryTechniques a" and ?s = "take 2 (selectSituationalTechniques rnd a)"
  from applyMandatoryTechniques_facts [of a]
  have m: "distinct (map technique ?m)"
    "technique ` set ?m \<subseteq> {Role_prompting, Iq_attribution, Emotion_prompting}"
    "2 \<le> length ?m" "length ?m \<le> 3" by simp_all
  from selectSituationalTechniques_facts [of rnd a]
  have s0: "distinct (map technique (selectSituationalTechniques rnd a))"
    "technique ` set (selectSituationalTechniques rnd a)
       \<subseteq> {Fake_past_consistency, Fake_audience, False_restriction, Someone_disagrees,
          Bet_100_dollars, Simtom, Rar}" by simp_all
  have s1: "distinct (map technique ?s)"
    using s0(1) by (simp add: take_map [symmetric] distinct_take)
  have "set ?s \<subseteq> set (selectSituationalTechniques rnd a)" by (rule set_take_subset)
  with s0(2) have s2: "technique ` set ?s
       \<subseteq> {Fake_past_consistency, Fake_audience, False_restriction, Someone_disagrees,
          Bet_100_dollars, Simtom, Rar}" by blast
  have "{Role_prompting, Iq_attribution, Emotion_prompting}
          \<inter> {Fake_past_consistency, Fake_audience, False_restriction, Someone_disagrees,
             Bet_100_dollars, Simtom, Rar} = {}" by simp
  with m(2) s2 have d: "technique ` set ?m \<inter> technique ` set ?s = {}" by blast
  have l: "length ?s \<le> 2" by simp
  from m s1 d l show ?thesis by (simp add: selectTechniques_def)
qed

section \<open>Scenario A\<close>

text \<open>
  The request of scenario A has nine words and contains no expert indicator, so
  neither expert trigger fires; the intermediate indicator "api" makes the
  complexity \<open>avancado\<close>, not \<open>expert\<close>.
\<close>

theorem scenarioA_complexity_not_expert:
  "complexityLevel (analyze ''Create a REST API for user authentication with JWT'' JUndefined)
   \<noteq> Expert"
  by code_simp

text \<open>
  C2, as the code has it. For the request "Create a REST API for user authentication
  with JWT" without context the analyzer returns the task type \<open>codigo\<close> and the
  complexity \<open>avancado\<close>, the applied techniques include role prompting and IQ
  attribution, and the generation directive of the result contains "generate".
\<close>

theorem scenarioA_classification:
  "taskType (analyze ''Create a REST API for user authentication with JWT'' JUndefined) = Codigo
   \<and> complexityLevel (analyze ''Create a REST API for user authentication with JWT'' JUndefined)
       = Avancado
   \<and> Role_prompting \<in> set (appliedTechniques (result_analysis
         (optimize rnd \<lparr> user_request = ''Create a REST API for user authentication with JWT'',
                          request_context = JUndefined \<rparr>)))
   \<and> Iq_attribution \<in> set (appliedTechniques (result_analysis
         (optimize rnd \<lparr> user_request = ''Create a REST API for user authentication with JWT'',
                          request_context = JUndefined \<rparr>)))
   \<and> js_includes (generationDirective (metaInstructions
         (optimize rnd \<lparr> user_request = ''Create a REST API for user authentication with JWT'',
                          request_context = JUndefined \<rparr>))) ''generate''"
  by code_simp

section \<open>Complexity: the intermediate signals\<close>

text \<open>
  The request "refatorar o login" contains the intermediate indicator "refatorar" and
  no expert indicator, and it has three words. Its complexity is not
  \<open>intermediario\<close>.
\<close>

theorem refatorar_not_intermediario:
  "expertScore ''refatorar o login'' = 0
   \<and> \<not> (wordCount ''refatorar o login'' > 30 \<and> hasCodeTerms ''refatorar o login'')
   \<and> (intermediateScore ''refatorar o login'' > 0 \<or> wordCount ''refatorar o login'' > 20)
   \<and> complexityLevel (analyze ''refatorar o login'' JUndefined) \<noteq> Intermediario"
  by code_simp

text \<open>
  C3, as the code has it. When no expert indicator occurs and the expert length
  trigger (more than 30 words together with a code term) does not fire, an
  intermediate indicator or more than 20 words give the complexity \<open>avancado\<close>.
\<close>

theorem intermediate_signals_give_avancado:
  assumes "expertScore request = 0"
    and "\<not> (wordCount request > 30 \<and> hasCodeTerms request)"
    and "intermediateScore request > 0 \<or> wordCount request > 20"
  shows "complexityLevel (analyze request ctx) = Avancado"
  using assms by (simp add: assessComplexity_def)

theorem intermediate_signals_give_avancado_witness:
  "expertScore ''refatorar o login'' = 0
   \<and> \<not> (wordCount ''refatorar o login'' > 30 \<and> hasCodeTerms ''refatorar o login'')
   \<and> (intermediateScore ''refatorar o login'' > 0 \<or> wordCount ''refatorar o login'' > 20)
   \<and> complexityLevel (analyze ''refatorar o login'' JUndefined) = Avancado"
proof -
  have h1: "expertScore ''refatorar o login'' = 0" by code_simp
  have h2: "\<not> (wordCount ''refatorar o login'' > 30 \<and> hasCodeTerms ''refatorar o login'')"
    by code_simp
  have h3: "intermediateScore ''refatorar o login'' > 0 \<or> wordCount ''refatorar o login'' > 20"
    by code_simp
  from intermediate_signals_give_avancado [OF h1 h2 h3, of JUndefined] h1 h2 h3
  show ?thesis by blast
qed

section \<open>Orchestrator: the parts of the result\<close>

text \<open>The result of \<open>optimize\<close> for the request of scenario A carries no quality score.\<close>

theorem optimize_sets_no_qualityScore:
  "qualityScore (optimize 0 \<lparr> user_request = ''Create a REST API for user authentication with JWT'',
                              request_context = JUndefined \<rparr>) = None"
  by (simp add: optimize_def Let_def)

text \<open>
  C4, as the code has it. For every request the orchestrator runs the analyzer, the
  selector, the builder and the justification, and its result holds the
  classification facts, the instruction framework and the technique justification.
  The quality evaluator is not part of the pipeline: the field \<open>qualityScore\<close> of
  the result is never set.
\<close>

theorem optimize_result_parts:
  "ra_originalRequest (result_analysis (optimize rnd request)) = user_request request
   \<and> ra_taskType (result_analysis (optimize rnd request))
       = taskType (analyze (user_request request) (request_context request))
   \<and> identifiedObjective (result_analysis (optimize rnd request))
       = mainObjective (analyze (user_request request) (request_context request))
   \<and> appliedTechniques (result_analysis (optimize rnd request))
       = map technique
           (selectTechniques rnd (analyze (user_request request) (request_context request)))
   \<and> metaInstructions (optimize rnd request)
       = buildMetaInstructions (user_request request)
           (analyze (user_request request) (request_context request))
           (selectTechniques rnd (analyze (user_request request) (request_context request)))
   \<and> technicalJustification (optimize rnd request)
       = buildJustification
           (selectTechniques rnd (analyze (user_request request) (request_context request)))
           (analyze (user_request request) (request_context request))
   \<and> qualityScore (optimize rnd request) = None"
  by (simp add: optimize_def Let_def)

section \<open>Thinking protocol\<close>

text \<open>
  The request "configurar o servidor" is a technical task. Its thinking protocol has
  the three steps of the prefix and the two steps of the suffix, and no pair of
  steps between them.
\<close>

theorem thinking_protocol_without_pair:
  "taskType (analyze ''configurar o servidor'' JUndefined) = Tecnica
   \<and> buildThinkingProtocol (analyze ''configurar o servidor'' JUndefined)
     = [''Step 1: Read and analyze the original request carefully'',
        ''Step 2: Identify the core problem and implicit requirements'',
        ''Step 3: Consider the domain expertise needed'',
        ''Step 6: Structure the prompt with clear sections and requirements'',
        ''Step 7: Validate that all meta-instructions are incorporated'']"
  by code_simp

text \<open>
  C5, as the code has it. The thinking protocol is a fixed prefix of three steps,
  then a pair of steps for a code, a creative or an analytical task and no step for
  every other task type, then a fixed suffix of two steps; its length is 7 or 5, so
  between 5 and 7. The three pairs differ from each other, and all other task types
  share one protocol.
\<close>

theorem thinking_protocol_shape:
  "(\<exists>middle.
      buildThinkingProtocol a
        = [''Step 1: Read and analyze the original request carefully'',
           ''Step 2: Identify the core problem and implicit requirements'',
           ''Step 3: Consider the domain expertise needed'']
          @ middle
          @ [''Step 6: Structure the prompt with clear sections and requirements'',
             ''Step 7: Validate that all meta-instructions are incorporated'']
      \<and> length middle = (if taskType a \<in> {Codigo, Criativa, Analitica} then 2 else 0))
   \<and> 5 \<le> length (buildThinkingProtocol a) \<and> length (buildThinkingProtocol a) \<le> 7
   \<and> (taskType a \<in> {Codigo, Criativa, Analitica} \<and> taskType b \<in> {Codigo, Criativa, Analitica}
        \<and> taskType a \<noteq> taskType b
        \<longrightarrow> buildThinkingProtocol a \<noteq> buildThinkingProtocol b)
   \<and> (taskType a \<notin> {Codigo, Criativa, Analitica} \<and> taskType b \<notin> {Codigo, Criativa, Analitica}
        \<longrightarrow> buildThinkingProtocol a = buildThinkingProtocol b)"
  by (cases "taskType a"; cases "taskType b"; simp add: buildThinkingProtocol_def)

theorem thinking_protocol_shape_witness:
  "taskType (analyze ''debug the api'' JUndefined) \<in> {Codigo, Criativa, Analitica}
   \<and> taskType (analyze ''comparar bancos'' JUndefined) \<in> {Codigo, Criativa, Analitica}
   \<and> taskType (analyze ''debug the api'' JUndefined)
       \<noteq> taskType (analyze ''comparar bancos'' JUndefined)
   \<and> buildThinkingProtocol (analyze ''debug the api'' JUndefined)
       \<noteq> buildThinkingProtocol (analyze ''comparar bancos'' JUndefined)
   \<and> taskType (analyze ''configurar o servidor'' JUndefined) \<notin> {Codigo, Criativa, Analitica}
   \<and> taskType (analyze ''documentar o servidor'' JUndefined) \<notin> {Codigo, Criativa, Analitica}
   \<and> buildThinkingProtocol (analyze ''configurar o servidor'' JUndefined)
       = buildThinkingProtocol (analyze ''documentar o servidor'' JUndefined)"
proof -
  have h1: "taskType (analyze ''debug the api'' JUndefined) \<in> {Codigo, Criativa, Analitica}
   \<and> taskType (analyze ''comparar bancos'' JUndefined) \<in> {Codigo, Criativa, Analitica}
   \<and> taskType (analyze ''debug the api'' JUndefined)
       \<noteq> taskType (analyze ''comparar bancos'' JUndefined)"
    by code_simp
  have h2: "taskType (analyze ''configurar o servidor'' JUndefined) \<notin> {Codigo, Criativa, Analitica}
   \<and> taskType (analyze ''documentar o servidor'' JUndefined) \<notin> {Codigo, Criativa, Analitica}"
    by code_simp
  from h1 h2
    thinking_protocol_shape [of "analyze ''debug the api'' JUndefined"
                                "analyze ''comparar bancos'' JUndefined"]
    thinking_protocol_shape [of "analyze ''configurar o servidor'' JUndefined"
                                "analyze ''documentar o servidor'' JUndefined"]
  show ?thesis by blast
qed

section \<open>Analyzer: closed enums and defaults\<close>

text \<open>
  C8. For every request and every context the analyzer returns a task type that is
  one of the eight enum values and a complexity that is one of the four enum values.
  When no keyword of any task type occurs in the request in lower case the task type
  is \<open>tecnica\<close>, and when no complexity threshold is met the complexity is
  \<open>intermediario\<close>. The analyzer is a total function: none of its steps can fail
  on a string.
\<close>

theorem analyze_closed_enums_and_defaults:
  "taskType_string (taskType (analyze request ctx))
     \<in> {''criativa'', ''tecnica'', ''analitica'', ''educacional'', ''debate'', ''documentacao'',
        ''codigo'', ''mista''}
   \<and> complexity_string (complexityLevel (analyze request ctx))
     \<in> {''basico'', ''intermediario'', ''avancado'', ''expert''}
   \<and> ((\<forall>(t, ws) \<in> set patterns. \<forall>w \<in> set ws. \<not> js_includes (toLowerCase request) w)
        \<longrightarrow> taskType (analyze request ctx) = Tecnica)
   \<and> (expertScore request = 0 \<and> \<not> (wordCount request > 30 \<and> hasCodeTerms request)
        \<and> intermediateScore request = 0 \<and> \<not> wordCount request > 20 \<and> basicScore request = 0
        \<longrightarrow> complexityLevel (analyze request ctx) = Intermediario)"
proof (intro conjI impI)
  show "taskType_string (taskType (analyze request ctx))
     \<in> {''criativa'', ''tecnica'', ''analitica'', ''educacional'', ''debate'', ''documentacao'',
        ''codigo'', ''mista''}"
    by (cases "taskType (analyze request ctx)") simp_all
  show "complexity_string (complexityLevel (analyze request ctx))
     \<in> {''basico'', ''intermediario'', ''avancado'', ''expert''}"
    by (cases "complexityLevel (analyze request ctx)") simp_all
next
  assume "\<forall>(t, ws) \<in> set patterns. \<forall>w \<in> set ws. \<not> js_includes (toLowerCase request) w"
  then have "taskType_scores request = []" by (rule taskType_scores_empty)
  then show "taskType (analyze request ctx) = Tecnica"
    by (simp add: identifyTaskType_def sort_desc_def)
next
  assume "expertScore request = 0 \<and> \<not> (wordCount request > 30 \<and> hasCodeTerms request)
        \<and> intermediateScore request = 0 \<and> \<not> wordCount request > 20 \<and> basicScore request = 0"
  then show "complexityLevel (analyze request ctx) = Intermediario"
    by (simp add: assessComplexity_def)
qed

theorem analyze_closed_enums_and_defaults_witness:
  "list_all (\<lambda>(t, ws). list_all (\<lambda>w. \<not> js_includes (toLowerCase ''hello'') w) ws) patterns
   \<and> expertScore ''hello'' = 0 \<and> \<not> (wordCount ''hello'' > 30 \<and> hasCodeTerms ''hello'')
   \<and> intermediateScore ''hello'' = 0 \<and> \<not> wordCount ''hello'' > 20 \<and> basicScore ''hello'' = 0
   \<and> taskType (analyze ''hello'' JUndefined) = Tecnica
   \<and> complexityLevel (analyze ''hello'' JUndefined) = Intermediario"
proof -
  have h0: "list_all (\<lambda>(t, ws). list_all (\<lambda>w. \<not> js_includes (toLowerCase ''hello'') w) ws) patterns"
    by code_simp
  then have h1: "\<forall>(t, ws) \<in> set patterns. \<forall>w \<in> set ws. \<not> js_includes (toLowerCase ''hello'') w"
    by (auto simp: list_all_iff)
  have h2: "expertScore ''hello'' = 0 \<and> \<not> (wordCount ''hello'' > 30 \<and> hasCodeTerms ''hello'')
   \<and> intermediateScore ''hello'' = 0 \<and> \<not> wordCount ''hello'' > 20 \<and> basicScore ''hello'' = 0"
    by code_simp
  from analyze_closed_enums_and_defaults [of "''hello''" JUndefined] h0 h1 h2
  show ?thesis by blast
qed

section \<open>Tool handler: invalid input\<close>

text \<open>
  C9. A call with a missing \<open>user_request\<close> is to end in an \<open>InvalidParams\<close>
  error before the pipeline runs. For a call that carries no arguments object at
  all (the arguments are \<open>undefined\<close>, or \<open>null\<close>) the handler does not get that
  far: reading \<open>args.user_request\<close> throws a \<open>TypeError\<close>, which the handler
  catches and throws again as an \<open>McpError\<close> with the code \<open>InternalError\<close>.
  Nothing of the pipeline has run, but the error is not \<open>InvalidParams\<close>.
\<close>

theorem absent_arguments_give_internal_error:
  "handleOptimizePrompt formatOutput rnd JUndefined
   = ([], Inl (McpError InternalError
        (''Erro ao otimizar prompt: Cannot read properties of undefined (reading ''
           @ [CHR 0x27] @ ''user_request'' @ [CHR 0x27] @ '')'')))
   \<and> handleOptimizePrompt formatOutput rnd JNull
   = ([], Inl (McpError InternalError
        (''Erro ao otimizar prompt: Cannot read properties of null (reading ''
           @ [CHR 0x27] @ ''user_request'' @ [CHR 0x27] @ '')'')))
   \<and> InternalError \<noteq> InvalidParams"
  by (simp add: handleOptimizePrompt_def)

theorem absent_arguments_give_internal_error_witness:
  "handleOptimizePrompt (\<lambda>r v. []) 0 JUndefined
   = ([], Inl (McpError InternalError
        (''Erro ao otimizar prompt: Cannot read properties of undefined (reading ''
           @ [CHR 0x27] @ ''user_request'' @ [CHR 0x27] @ '')'')))
   \<and> handleOptimizePrompt (\<lambda>r v. []) 0 JNull
   = ([], Inl (McpError InternalError
        (''Erro ao otimizar prompt: Cannot read properties of null (reading ''
           @ [CHR 0x27] @ ''user_request'' @ [CHR 0x27] @ '')'')))"
  using absent_arguments_give_internal_error [of "\<lambda>r v. []" 0] by simp

text \<open>
  What holds of the validation. When the call carries an arguments object that has
  no field \<open>user_request\<close>, or whose field is not a string or is the empty string,
  the handler throws an \<open>McpError\<close> with the code \<open>InvalidParams\<close>, and it has
  called neither \<open>optimize\<close> nor \<open>validateResult\<close> nor \<open>formatOutput\<close>: no
  analysis and no framework exist.
\<close>

lemma invalid_user_request_rejected:
  assumes "map_of props ''user_request'' = None
           \<or> (\<exists>v. map_of props ''user_request'' = Some v \<and> (\<not> typeof_string v \<or> v = JString []))"
  shows "handleOptimizePrompt formatOutput rnd (JObject props)
         = ([], Inl (McpError InvalidParams invalidParamsMessage))"
proof -
  from assms obtain v where g: "get_property (JObject props) ''user_request'' = Inr v"
    and v: "\<not> typeof_string v \<or> v = JString []"
    by (cases "map_of props ''user_request''") auto
  from v have "\<not> truthy v \<or> \<not> typeof_string v" by auto
  with g show ?thesis by (simp add: handleOptimizePrompt_def)
qed

lemma invalid_user_request_rejected_examples:
  "handleOptimizePrompt (\<lambda>r v. []) 0 (JObject [(''context'', JString ''notes'')])
     = ([], Inl (McpError InvalidParams invalidParamsMessage))
   \<and> handleOptimizePrompt (\<lambda>r v. []) 0 (JObject [(''user_request'', JString [])])
     = ([], Inl (McpError InvalidParams invalidParamsMessage))
   \<and> handleOptimizePrompt (\<lambda>r v. []) 0 (JObject [(''user_request'', JNumber 42)])
     = ([], Inl (McpError InvalidParams invalidParamsMessage))"
proof -
  have a: "map_of [(''context'', JString ''notes'')] ''user_request'' = None
           \<or> (\<exists>v. map_of [(''context'', JString ''notes'')] ''user_request'' = Some v
                  \<and> (\<not> typeof_string v \<or> v = JString []))"
    by simp
  have b: "map_of [(''user_request'', JString [])] ''user_request'' = None
           \<or> (\<exists>v. map_of [(''user_request'', JString [])] ''user_request'' = Some v
                  \<and> (\<not> typeof_string v \<or> v = JString []))"
    by simp
  have c: "map_of [(''user_request'', JNumber 42)] ''user_request'' = None
           \<or> (\<exists>v. map_of [(''user_request'', JNumber 42)] ''user_request'' = Some v
                  \<and> (\<not> typeof_string v \<or> v = JString []))"
    by simp
  show ?thesis
    using invalid_user_request_rejected [OF a, of "\<lambda>r v. []" 0]
      invalid_user_request_rejected [OF b, of "\<lambda>r v. []" 0]
      invalid_user_request_rejected [OF c, of "\<lambda>r v. []" 0]
    by simp
qed

text \<open>A non-empty string as \<open>user_request\<close> runs the three calls.\<close>

lemma valid_request_runs_pipeline:
  assumes "get_property args ''user_request'' = Inr (JString s)" and "s \<noteq> []"
  shows "\<exists>ctx. handleOptimizePrompt formatOutput rnd args
         = ([Call_optimize, Call_validateResult, Call_formatOutput],
            Inr (formatOutput (optimize rnd \<lparr>user_request = s, request_context = ctx\<rparr>)
                   (validateResult (optimize rnd \<lparr>user_request = s, request_context = ctx\<rparr>))))"
  using assms by (cases args) (auto simp: handleOptimizePrompt_def Let_def)

section \<open>Builder and validator\<close>

lemma generation_prefix_lower:
  "js_includes (toLowerCase ''Based on these meta-instructions, generate an optimized prompt that incorporates all the directives above. The prompt should guide the AI to produce '') ''generate''"
  by code_simp

lemma generation_prefix_plain:
  "js_includes ''Based on these meta-instructions, generate an optimized prompt that incorporates all the directives above. The prompt should guide the AI to produce '' ''generate''"
  by code_simp

lemma buildGenerationDirective_lower_generate:
  "js_includes (toLowerCase (buildGenerationDirective a)) ''generate''"
  unfolding buildGenerationDirective_def Let_def toLowerCase_append
  by (rule js_includes_append_left [OF generation_prefix_lower])

lemma buildGenerationDirective_generate:
  "js_includes (buildGenerationDirective a) ''generate''"
  unfolding buildGenerationDirective_def Let_def
  by (rule js_includes_append_left [OF generation_prefix_plain])

lemma buildEngineeringDirectives_length:
  "length (buildEngineeringDirectives a techs) \<ge> 3"
  by (simp add: buildEngineeringDirectives_def Let_def)

lemma buildThinkingProtocol_length:
  "length (buildThinkingProtocol a) = (if taskType a \<in> {Codigo, Criativa, Analitica} then 7 else 5)"
  by (simp add: buildThinkingProtocol_def)

lemma getContextRequirements_length:
  "length (getContextRequirements a) = 3 + length (implicitContext a)"
  by (simp add: getContextRequirements_def)

text \<open>
  C10. Every framework that \<open>buildMetaInstructions\<close> builds, from any analysis
  result and any list of techniques, passes \<open>validateMetaInstructions\<close> with no
  issue: it has at least one directive, a thinking protocol of at least three steps,
  context requirements, and a generation directive that contains "generate".
\<close>

theorem built_framework_is_valid:
  "validateMetaInstructions (buildMetaInstructions request a techs)
     = \<lparr> isValid = True, issues = [] \<rparr>
   \<and> length (promptEngineeringDirectives (buildMetaInstructions request a techs)) \<ge> 1
   \<and> length (thinkingProtocol (buildMetaInstructions request a techs)) \<ge> 3
   \<and> contextRequirements (requiredStructuralElements (buildMetaInstructions request a techs)) \<noteq> []
   \<and> js_includes (generationDirective (buildMetaInstructions request a techs)) ''generate''"
proof -
  have d: "length (buildEngineeringDirectives a techs) \<ge> 3"
    by (rule buildEngineeringDirectives_length)
  have t: "length (buildThinkingProtocol a) \<ge> 5"
    by (simp add: buildThinkingProtocol_length)
  have c: "length (getContextRequirements a) \<ge> 3"
    by (simp add: getContextRequirements_length)
  have g: "js_includes (toLowerCase (buildGenerationDirective a)) ''generate''"
    by (rule buildGenerationDirective_lower_generate)
  have g': "js_includes (buildGenerationDirective a) ''generate''"
    by (rule buildGenerationDirective_generate)
  from d t c g g' show ?thesis
    by (auto simp: validateMetaInstructions_def buildMetaInstructions_def
          buildStructuralRequirements_def Let_def)
qed

section \<open>Domain matcher\<close>

lemma fold_count:
  "fold (\<lambda>x s. if P x then s + k else s) xs s0 = s0 + k * length (filter P xs)"
  by (induction xs arbitrary: s0) simp_all

lemma templateScore_spec:
  "templateScore (toLowerCase request) kws tt template = spec_templateScore request kws tt template"
  by (simp add: templateScore_def spec_templateScore_def Let_def fold_count)

lemma domainScores_set:
  "(t, s) \<in> set (domainScores request kws tt) \<longleftrightarrow>
     t \<in> set DOMAIN_TEMPLATES \<and> s = spec_templateScore request kws tt t \<and> s > 0"
  by (auto simp: domainScores_def Let_def templateScore_spec)

text \<open>
  C7. The score that the matcher computes for a template is 5 when the task types
  agree, plus 3 for each word of the domain name that occurs in the request in lower
  case, plus 2 for each keyword of the user that occurs in the domain name in lower
  case. The matcher returns a template only if the score of that template is the
  maximum over all templates and at least 5; it returns none exactly when every
  template scores less than 5.
\<close>

theorem matchDomain_best_score:
  "(matchDomain request kws tt = Some t \<longrightarrow>
      t \<in> set DOMAIN_TEMPLATES
      \<and> 5 \<le> spec_templateScore request kws tt t
      \<and> (\<forall>u \<in> set DOMAIN_TEMPLATES.
            spec_templateScore request kws tt u \<le> spec_templateScore request kws tt t))
   \<and> (matchDomain request kws tt = None \<longleftrightarrow>
        (\<forall>u \<in> set DOMAIN_TEMPLATES. spec_templateScore request kws tt u < 5))
   \<and> templateScore (toLowerCase request) kws tt t = spec_templateScore request kws tt t"
proof (cases "sort_desc snd (domainScores request kws tt)")
  case Nil
  then have e: "domainScores request kws tt = []" by (simp add: sort_desc_Nil)
  have z: "\<forall>u \<in> set DOMAIN_TEMPLATES. spec_templateScore request kws tt u = 0"
  proof
    fix u assume u: "u \<in> set DOMAIN_TEMPLATES"
    show "spec_templateScore request kws tt u = 0"
    proof (rule ccontr)
      assume "spec_templateScore request kws tt u \<noteq> 0"
      with u have "(u, spec_templateScore request kws tt u) \<in> set (domainScores request kws tt)"
        by (simp add: domainScores_set)
      with e show False by simp
    qed
  qed
  from Nil have n: "matchDomain request kws tt = None" by (simp add: matchDomain_def)
  from z n show ?thesis by (simp add: templateScore_spec)
next
  case (Cons best rest)
  obtain bt bs where b: "best = (bt, bs)" by (cases best)
  from sort_desc_head_max [OF Cons] b
  have m: "(bt, bs) \<in> set (domainScores request kws tt)"
    and mx: "\<forall>x \<in> set (domainScores request kws tt). snd x \<le> bs" by auto
  from m have bt: "bt \<in> set DOMAIN_TEMPLATES" and bs: "bs = spec_templateScore request kws tt bt"
    by (simp_all add: domainScores_set)
  have le: "\<forall>u \<in> set DOMAIN_TEMPLATES. spec_templateScore request kws tt u \<le> bs"
  proof
    fix u assume u: "u \<in> set DOMAIN_TEMPLATES"
    show "spec_templateScore request kws tt u \<le> bs"
    proof (cases "spec_templateScore request kws tt u > 0")
      case True
      with u have "(u, spec_templateScore request kws tt u) \<in> set (domainScores request kws tt)"
        by (simp add: domainScores_set)
      with mx show ?thesis by fastforce
    next
      case False
      then show ?thesis by simp
    qed
  qed
  show ?thesis
  proof (cases "bs \<ge> 5")
    case True
    with Cons b have sm: "matchDomain request kws tt = Some bt" by (simp add: matchDomain_def)
    from True bt bs
    have ex: "\<not> (\<forall>u \<in> set DOMAIN_TEMPLATES. spec_templateScore request kws tt u < 5)"
      by (metis not_less)
    have c1: "matchDomain request kws tt = Some t \<longrightarrow>
      t \<in> set DOMAIN_TEMPLATES
      \<and> 5 \<le> spec_templateScore request kws tt t
      \<and> (\<forall>u \<in> set DOMAIN_TEMPLATES.
            spec_templateScore request kws tt u \<le> spec_templateScore request kws tt t)"
      using sm True bt bs le by auto
    have c2: "matchDomain request kws tt = None \<longleftrightarrow>
        (\<forall>u \<in> set DOMAIN_TEMPLATES. spec_templateScore request kws tt u < 5)"
      using sm ex by simp
    from c1 c2 show ?thesis by (simp add: templateScore_spec)
  next
    case False
    with Cons b have "matchDomain request kws tt = None" by (simp add: matchDomain_def)
    moreover from False le have "\<forall>u \<in> set DOMAIN_TEMPLATES. spec_templateScore request kws tt u < 5"
      by fastforce
    ultimately show ?thesis by (simp add: templateScore_spec)
  qed
qed

theorem matchDomain_best_score_witness:
  "matchDomain ''Design an API integration'' [''design'', ''integration''] Tecnica = Some api_design
   \<and> 5 \<le> spec_templateScore ''Design an API integration'' [''design'', ''integration''] Tecnica
            api_design
   \<and> list_all (\<lambda>u. spec_templateScore ''Design an API integration'' [''design'', ''integration'']
                      Tecnica u
                    \<le> spec_templateScore ''Design an API integration''
                        [''design'', ''integration''] Tecnica api_design) DOMAIN_TEMPLATES
   \<and> matchDomain ''hello'' [] Debate = None
   \<and> list_all (\<lambda>u. spec_templateScore ''hello'' [] Debate u < 5) DOMAIN_TEMPLATES"
proof -
  have h1: "matchDomain ''Design an API integration'' [''design'', ''integration''] Tecnica
            = Some api_design"
    by code_simp
  have h2: "list_all (\<lambda>u. spec_templateScore ''hello'' [] Debate u < 5) DOMAIN_TEMPLATES"
    by code_simp
  then have h2': "\<forall>u \<in> set DOMAIN_TEMPLATES. spec_templateScore ''hello'' [] Debate u < 5"
    by (simp add: list_all_iff)
  from matchDomain_best_score [of "''Design an API integration''" "[''design'', ''integration'']"
         Tecnica api_design] h1
  have a: "5 \<le> spec_templateScore ''Design an API integration'' [''design'', ''integration'']
                  Tecnica api_design"
    and b: "\<forall>u \<in> set DOMAIN_TEMPLATES.
              spec_templateScore ''Design an API integration'' [''design'', ''integration''] Tecnica u
              \<le> spec_templateScore ''Design an API integration'' [''design'', ''integration'']
                  Tecnica api_design"
    by blast+
  from matchDomain_best_score [of "''hello''" "[]" Debate api_design] h2'
  have c: "matchDomain ''hello'' [] Debate = None" by blast
  from h1 a b c h2 show ?thesis by (simp add: list_all_iff)
qed

section \<open>Quality evaluator: the overall score\<close>

lemma round_even_error: "\<bar>of_int (round_even y) - y\<bar> \<le> 1 / 2"
proof -
  have "of_int \<lfloor>y\<rfloor> \<le> y" and "y < of_int \<lfloor>y\<rfloor> + 1" by linarith+
  then show ?thesis by (auto simp: round_even_def Let_def)
qed

lemma ulp_bounds: "0 < ulp x \<and> ulp x \<le> 1 / 2 ^ 46"
  by (simp add: ulp_def)

lemma round_double_error: "\<bar>round_double x - x\<bar> \<le> 1 / 2 ^ 47"
proof -
  let ?u = "ulp x"
  from ulp_bounds [of x] have u: "0 < ?u" "?u \<le> 1 / 2 ^ 46" by simp_all
  have "round_double x - x = (of_int (round_even (x / ?u)) - x / ?u) * ?u"
    using u(1) by (simp add: round_double_def field_simps)
  then have "\<bar>round_double x - x\<bar> = \<bar>of_int (round_even (x / ?u)) - x / ?u\<bar> * ?u"
    using u(1) by (simp add: abs_mult)
  also have "\<dots> \<le> (1 / 2) * ?u"
    using round_even_error [of "x / ?u"] u(1) by (intro mult_right_mono) simp_all
  also have "\<dots> \<le> (1 / 2) * (1 / 2 ^ 46)"
    using u(2) by (intro mult_left_mono) simp_all
  finally show ?thesis by simp
qed

lemma Math_round_error: "\<bar>of_int (Math_round x) - x\<bar> \<le> 1 / 2"
  unfolding Math_round_def by linarith

lemma weight_error:
  "\<bar>weight_clarity - 25 / 100\<bar> \<le> 1 / 2 ^ 47"
  "\<bar>weight_completeness - 25 / 100\<bar> \<le> 1 / 2 ^ 47"
  "\<bar>weight_specificity - 20 / 100\<bar> \<le> 1 / 2 ^ 47"
  "\<bar>weight_techniqueBalance - 15 / 100\<bar> \<le> 1 / 2 ^ 47"
  "\<bar>weight_actionability - 15 / 100\<bar> \<le> 1 / 2 ^ 47"
  unfolding weight_clarity_def weight_completeness_def weight_specificity_def
    weight_techniqueBalance_def weight_actionability_def
  by (rule round_double_error)+

lemma product_error:
  assumes v: "0 \<le> v" "v \<le> 100" and w: "\<bar>w - w0\<bar> \<le> 1 / 2 ^ 47"
  shows "\<bar>double_mult (of_int v) w - of_int v * w0\<bar> \<le> 101 / 2 ^ 47"
proof -
  have "\<bar>of_int v * w - of_int v * w0\<bar> = \<bar>of_int v :: rat\<bar> * \<bar>w - w0\<bar>"
    by (simp add: abs_mult [symmetric] right_diff_distrib)
  also have "\<dots> \<le> 100 * (1 / 2 ^ 47)"
    using v w by (intro mult_mono) simp_all
  finally have a: "\<bar>of_int v * w - of_int v * w0\<bar> \<le> 100 / 2 ^ 47" by simp
  have b: "\<bar>double_mult (of_int v) w - of_int v * w\<bar> \<le> 1 / 2 ^ 47"
    unfolding double_mult_def by (rule round_double_error)
  from a b show ?thesis by linarith
qed

lemma sum_error:
  assumes "\<bar>s - s0\<bar> \<le> e1" and "\<bar>p - p0\<bar> \<le> e2"
  shows "\<bar>double_add s p - (s0 + p0)\<bar> \<le> e1 + e2 + 1 / 2 ^ 47"
proof -
  have "\<bar>double_add s p - (s + p)\<bar> \<le> 1 / 2 ^ 47"
    unfolding double_add_def by (rule round_double_error)
  with assms show ?thesis by linarith
qed

lemma calculateOverallScore_float_sum:
  "calculateOverallScore b = Math_round (float_sum b)"
  by (simp add: calculateOverallScore_def float_sum_def Let_def)

lemma float_sum_error:
  assumes "in_score_range b"
  shows "\<bar>float_sum b - weighted_sum b\<bar> \<le> 510 / 2 ^ 47"
proof -
  from assms have r:
    "0 \<le> clarity b" "clarity b \<le> 100" "0 \<le> completeness b" "completeness b \<le> 100"
    "0 \<le> specificity b" "specificity b \<le> 100"
    "0 \<le> techniqueBalance b" "techniqueBalance b \<le> 100"
    "0 \<le> actionability b" "actionability b \<le> 100"
    by (simp_all add: in_score_range_def)
  note p1 = product_error [OF r(1) r(2) weight_error(1)]
  note p2 = product_error [OF r(3) r(4) weight_error(2)]
  note p3 = product_error [OF r(5) r(6) weight_error(3)]
  note p4 = product_error [OF r(7) r(8) weight_error(4)]
  note p5 = product_error [OF r(9) r(10) weight_error(5)]
  have z: "\<bar>(0::rat) - 0\<bar> \<le> 0" by simp
  note s1 = sum_error [OF z p1]
  note s2 = sum_error [OF s1 p2]
  note s3 = sum_error [OF s2 p3]
  note s4 = sum_error [OF s3 p4]
  note s5 = sum_error [OF s4 p5]
  from s5 show ?thesis
    by (simp add: float_sum_def weighted_sum_def)
qed

lemma nearest_integer:
  fixes n :: int and k :: int
  assumes "\<bar>of_int n - (of_int k :: rat) / 20\<bar> \<le> 1 / 2 + 1 / 40"
  shows "\<bar>of_int n - (of_int k :: rat) / 20\<bar> \<le> 1 / 2"
proof -
  from assms have "\<bar>(of_int (20 * n - k) :: rat)\<bar> \<le> 10 + 1 / 2"
    by (simp add: abs_le_iff field_simps)
  then have "\<bar>of_int (20 * n - k) :: rat\<bar> < 11" by linarith
  then have "\<bar>20 * n - k\<bar> < 11" by (metis of_int_abs of_int_less_iff of_int_numeral)
  then have "\<bar>20 * n - k\<bar> \<le> 10" by linarith
  then have "\<bar>(of_int (20 * n - k) :: rat)\<bar> \<le> 10"
    by (metis of_int_abs of_int_le_iff of_int_numeral)
  then show ?thesis by (simp add: abs_le_iff field_simps)
qed

lemma weighted_sum_twentieths:
  "weighted_sum b
   = of_int (5 * clarity b + 5 * completeness b + 4 * specificity b
             + 3 * techniqueBalance b + 3 * actionability b) / 20"
  by (simp add: weighted_sum_def field_simps)

lemma calculateOverallScore_nearest:
  assumes "in_score_range b"
  shows "\<bar>of_int (calculateOverallScore b) - weighted_sum b\<bar> \<le> 1 / 2"
proof -
  have a: "\<bar>float_sum b - weighted_sum b\<bar> \<le> 510 / 2 ^ 47"
    by (rule float_sum_error [OF assms])
  have b: "\<bar>of_int (Math_round (float_sum b)) - float_sum b\<bar> \<le> 1 / 2"
    by (rule Math_round_error)
  have c: "(510 :: rat) / 2 ^ 47 \<le> 1 / 40" by simp
  from a b c
  have "\<bar>of_int (calculateOverallScore b) - weighted_sum b\<bar> \<le> 1 / 2 + 1 / 40"
    unfolding calculateOverallScore_float_sum by linarith
  then show ?thesis
    unfolding weighted_sum_twentieths by (rule nearest_integer)
qed

lemma clamp_score_range: "0 \<le> clamp_score s \<and> clamp_score s \<le> 100"
  by (simp add: clamp_score_def)

lemma evaluateQuality_in_range:
  "in_score_range (breakdown (evaluateQuality m a techs))"
  by (simp add: evaluateQuality_def Let_def in_score_range_def evaluateClarity_def
        evaluateCompleteness_def evaluateSpecificity_def evaluateTechniqueBalance_def
        evaluateActionability_def clamp_score_range)

text \<open>
  The table \<open>ulp\<close> gives the spacing of the binary64 numbers for magnitudes from
  1/8 up to 128. Every number that \<open>calculateOverallScore\<close> rounds, for scores
  between 0 and 100, is zero or lies in that range, and so do the three weights.
\<close>

lemma round_double_zero: "round_double 0 = 0"
  by (simp add: round_double_def round_even_def)

lemma round_double_lower: "round_double x \<ge> x - 1 / 2 ^ 47"
  using round_double_error [of x] by linarith

lemma round_double_upper: "round_double x \<le> x + 1 / 2 ^ 47"
  using round_double_error [of x] by linarith

text \<open>One product: zero, or between 149/1000 and the exact product plus a small error.\<close>

lemma product_range:
  assumes v: "0 \<le> v" "v \<le> 100" and w: "\<bar>w - w0\<bar> \<le> 1 / 2 ^ 47"
    and w0: "15 / 100 \<le> w0" "w0 \<le> 25 / 100"
  shows "(of_int v * w = 0 \<or> 149 / 1000 \<le> of_int v * w) \<and> of_int v * w \<le> 26
         \<and> (round_double (of_int v * w) = 0 \<or> 148 / 1000 \<le> round_double (of_int v * w))
         \<and> round_double (of_int v * w) \<le> of_int v * w0 + 101 / 2 ^ 47"
proof -
  have eps: "(1::rat) / 2 ^ 47 \<le> 1 / 1000" by simp
  from w w0 eps have wl: "149 / 1000 \<le> w" and wu: "w \<le> 26 / 100" by linarith+
  have u: "of_int v * w \<le> 26"
  proof -
    have "of_int v * w \<le> 100 * (26 / 100)"
      using v wl wu by (intro mult_mono) simp_all
    then show ?thesis by simp
  qed
  have e: "round_double (of_int v * w) \<le> of_int v * w0 + 101 / 2 ^ 47"
    using product_error [OF v w] unfolding double_mult_def by linarith
  show ?thesis
  proof (cases "v = 0")
    case True
    with u e show ?thesis by (simp add: round_double_zero)
  next
    case False
    with v have "1 \<le> v" by simp
    then have "(1::rat) \<le> of_int v" by simp
    then have "1 * w \<le> of_int v * w" using wl by (intro mult_right_mono) simp_all
    with wl have l: "149 / 1000 \<le> of_int v * w" by linarith
    with round_double_lower [of "of_int v * w"] eps
    have "148 / 1000 \<le> round_double (of_int v * w)" by linarith
    with l u e show ?thesis by simp
  qed
qed

text \<open>One addition of a partial sum and a rounded product.\<close>

lemma addition_range:
  assumes s: "s = 0 \<or> t + 1 / 1000 \<le> s" and r: "r = 0 \<or> 148 / 1000 \<le> r"
    and t: "1 / 8 \<le> t" "t + 1 / 1000 \<le> 148 / 1000"
    and su: "s \<le> s0 + e" and ru: "r \<le> r0 + 101 / 2 ^ 47" and b: "s0 + r0 \<le> 100" "e \<le> 1"
  shows "in_ulp_range (s + r) \<and> (round_double (s + r) = 0 \<or> t \<le> round_double (s + r))
         \<and> round_double (s + r) \<le> (s0 + r0) + (e + 102 / 2 ^ 47)"
proof -
  have up: "round_double (s + r) \<le> (s0 + r0) + (e + 102 / 2 ^ 47)"
    using round_double_upper [of "s + r"] su ru by linarith
  have lt: "s + r < 128" using su ru b by simp
  show ?thesis
  proof (cases "s = 0 \<and> r = 0")
    case True
    with up show ?thesis by (simp add: in_ulp_range_def round_double_zero)
  next
    case False
    with s r t have l: "t + 1 / 1000 \<le> s + r" by auto
    with t have "1 / 8 \<le> \<bar>s + r\<bar>" by linarith
    moreover from l t lt have "\<bar>s + r\<bar> < 128" by linarith
    ultimately have i: "in_ulp_range (s + r)" by (simp add: in_ulp_range_def)
    from l round_double_lower [of "s + r"] have "t \<le> round_double (s + r)" by simp
    with i up show ?thesis by simp
  qed
qed

lemma product_in_ulp_range:
  assumes "m = 0 \<or> 149 / 1000 \<le> m" and "m \<le> 26"
  shows "in_ulp_range m"
  using assms by (auto simp: in_ulp_range_def)

lemma rounding_arguments_in_range:
  assumes "in_score_range b"
  shows "list_all in_ulp_range (rounding_arguments b)"
proof -
  from assms have r:
    "0 \<le> clarity b" "clarity b \<le> 100" "0 \<le> completeness b" "completeness b \<le> 100"
    "0 \<le> specificity b" "specificity b \<le> 100"
    "0 \<le> techniqueBalance b" "techniqueBalance b \<le> 100"
    "0 \<le> actionability b" "actionability b \<le> 100"
    by (simp_all add: in_score_range_def)
  let ?c = "of_int (clarity b) :: rat" and ?k = "of_int (completeness b) :: rat"
  let ?s = "of_int (specificity b) :: rat" and ?t = "of_int (techniqueBalance b) :: rat"
  let ?a = "of_int (actionability b) :: rat"
  have bnd: "?c \<le> 100" "?k \<le> 100" "?s \<le> 100" "?t \<le> 100" "?a \<le> 100"
    "0 \<le> ?c" "0 \<le> ?k" "0 \<le> ?s" "0 \<le> ?t" "0 \<le> ?a"
    using r by simp_all
  let ?m1 = "?c * weight_clarity" and ?m2 = "?k * weight_completeness"
  let ?m3 = "?s * weight_specificity" and ?m4 = "?t * weight_techniqueBalance"
  let ?m5 = "?a * weight_actionability"
  note p1 = product_range [OF r(1) r(2) weight_error(1)]
  note p2 = product_range [OF r(3) r(4) weight_error(2)]
  note p3 = product_range [OF r(5) r(6) weight_error(3)]
  note p4 = product_range [OF r(7) r(8) weight_error(4)]
  note p5 = product_range [OF r(9) r(10) weight_error(5)]
  have q1: "(?m1 = 0 \<or> 149 / 1000 \<le> ?m1) \<and> ?m1 \<le> 26
            \<and> (round_double ?m1 = 0 \<or> 148 / 1000 \<le> round_double ?m1)
            \<and> round_double ?m1 \<le> ?c * (25 / 100) + 101 / 2 ^ 47" by (rule p1) simp_all
  have q2: "(?m2 = 0 \<or> 149 / 1000 \<le> ?m2) \<and> ?m2 \<le> 26
            \<and> (round_double ?m2 = 0 \<or> 148 / 1000 \<le> round_double ?m2)
            \<and> round_double ?m2 \<le> ?k * (25 / 100) + 101 / 2 ^ 47" by (rule p2) simp_all
  have q3: "(?m3 = 0 \<or> 149 / 1000 \<le> ?m3) \<and> ?m3 \<le> 26
            \<and> (round_double ?m3 = 0 \<or> 148 / 1000 \<le> round_double ?m3)
            \<and> round_double ?m3 \<le> ?s * (20 / 100) + 101 / 2 ^ 47" by (rule p3) simp_all
  have q4: "(?m4 = 0 \<or> 149 / 1000 \<le> ?m4) \<and> ?m4 \<le> 26
            \<and> (round_double ?m4 = 0 \<or> 148 / 1000 \<le> round_double ?m4)
            \<and> round_double ?m4 \<le> ?t * (15 / 100) + 101 / 2 ^ 47" by (rule p4) simp_all
  have q5: "(?m5 = 0 \<or> 149 / 1000 \<le> ?m5) \<and> ?m5 \<le> 26
            \<and> (round_double ?m5 = 0 \<or> 148 / 1000 \<le> round_double ?m5)
            \<and> round_double ?m5 \<le> ?a * (15 / 100) + 101 / 2 ^ 47" by (rule p5) simp_all
  let ?a1 = "0 + round_double ?m1"
  let ?a2 = "round_double ?a1 + round_double ?m2"
  let ?a3 = "round_double ?a2 + round_double ?m3"
  let ?a4 = "round_double ?a3 + round_double ?m4"
  let ?a5 = "round_double ?a4 + round_double ?m5"
  have s1: "in_ulp_range ?a1 \<and> (round_double ?a1 = 0 \<or> 147 / 1000 \<le> round_double ?a1)
            \<and> round_double ?a1 \<le> (0 + ?c * (25 / 100)) + (0 + 102 / 2 ^ 47)"
    using q1 bnd by (intro addition_range) simp_all
  have s2: "in_ulp_range ?a2 \<and> (round_double ?a2 = 0 \<or> 146 / 1000 \<le> round_double ?a2)
            \<and> round_double ?a2 \<le> ((0 + ?c * (25 / 100)) + ?k * (25 / 100))
                 + ((0 + 102 / 2 ^ 47) + 102 / 2 ^ 47)"
    using s1 q2 bnd by (intro addition_range) simp_all
  have s3: "in_ulp_range ?a3 \<and> (round_double ?a3 = 0 \<or> 145 / 1000 \<le> round_double ?a3)
            \<and> round_double ?a3 \<le> (((0 + ?c * (25 / 100)) + ?k * (25 / 100)) + ?s * (20 / 100))
                 + (((0 + 102 / 2 ^ 47) + 102 / 2 ^ 47) + 102 / 2 ^ 47)"
    using s2 q3 bnd by (intro addition_range) simp_all
  have s4: "in_ulp_range ?a4 \<and> (round_double ?a4 = 0 \<or> 144 / 1000 \<le> round_double ?a4)
            \<and> round_double ?a4
               \<le> ((((0 + ?c * (25 / 100)) + ?k * (25 / 100)) + ?s * (20 / 100)) + ?t * (15 / 100))
                 + ((((0 + 102 / 2 ^ 47) + 102 / 2 ^ 47) + 102 / 2 ^ 47) + 102 / 2 ^ 47)"
    using s3 q4 bnd by (intro addition_range) simp_all
  have s5: "in_ulp_range ?a5"
  proof -
    have "in_ulp_range ?a5 \<and> (round_double ?a5 = 0 \<or> 143 / 1000 \<le> round_double ?a5)
            \<and> round_double ?a5
               \<le> (((((0 + ?c * (25 / 100)) + ?k * (25 / 100)) + ?s * (20 / 100)) + ?t * (15 / 100))
                    + ?a * (15 / 100))
                 + (((((0 + 102 / 2 ^ 47) + 102 / 2 ^ 47) + 102 / 2 ^ 47) + 102 / 2 ^ 47)
                    + 102 / 2 ^ 47)"
      using s4 q5 bnd by (intro addition_range) simp_all
    then show ?thesis by simp
  qed
  from q1 q2 q3 q4 q5 have m: "in_ulp_range ?m1" "in_ulp_range ?m2" "in_ulp_range ?m3"
    "in_ulp_range ?m4" "in_ulp_range ?m5"
    by (simp_all add: product_in_ulp_range)
  from m s1 s2 s3 s4 s5 show ?thesis
    by (simp add: rounding_arguments_def Let_def)
qed

lemma float_sum_rounding_arguments:
  "float_sum b = round_double (last (rounding_arguments b))"
  by (simp add: float_sum_def rounding_arguments_def Let_def double_add_def double_mult_def)

lemma weights_in_ulp_range:
  "in_ulp_range (25 / 100) \<and> in_ulp_range (20 / 100) \<and> in_ulp_range (15 / 100)"
  by (simp add: in_ulp_range_def)

text \<open>
  C6. For every quality score that \<open>evaluateQuality\<close> returns, \<open>overall\<close> is
  what \<open>calculateOverallScore\<close> computes from the returned breakdown, and it is
  an integer nearest to the weighted sum
  clarity * 0.25 + completeness * 0.25 + specificity * 0.20 + techniqueBalance * 0.15
  + actionability * 0.15 of that breakdown: the two differ by at most one half.
\<close>

theorem overall_is_rounded_weighted_sum:
  "overall (evaluateQuality m a techs)
     = calculateOverallScore (breakdown (evaluateQuality m a techs))
   \<and> \<bar>of_int (overall (evaluateQuality m a techs))
        - weighted_sum (breakdown (evaluateQuality m a techs))\<bar> \<le> 1 / 2"
proof -
  have e: "overall (evaluateQuality m a techs)
           = calculateOverallScore (breakdown (evaluateQuality m a techs))"
    by (simp add: evaluateQuality_def Let_def)
  have "\<bar>of_int (calculateOverallScore (breakdown (evaluateQuality m a techs)))
        - weighted_sum (breakdown (evaluateQuality m a techs))\<bar> \<le> 1 / 2"
    by (rule calculateOverallScore_nearest [OF evaluateQuality_in_range])
  with e show ?thesis by simp
qed

text \<open>
  When the weighted sum lies exactly between two integers, the sum in binary64 may
  lie just below it, and the lower integer comes out: 1 * 0.15 + 9 * 0.15 is
  1.4999999999999998 in binary64.
\<close>

lemma tie_rounds_down:
  "calculateOverallScore \<lparr> clarity = 0, completeness = 0, specificity = 0,
                             techniqueBalance = 1, actionability = 9 \<rparr> = 1
   \<and> weighted_sum \<lparr> clarity = 0, completeness = 0, specificity = 0,
                     techniqueBalance = 1, actionability = 9 \<rparr> = 3 / 2"
  by code_simp

end
